theory Spec2Isabelle
  imports Complex_Main "HOL-Library.Sublist" "HOL-Library.AList"
begin

section \<open>Python strings\<close>

text \<open>
  A Python \<open>str\<close> is modelled as a \<open>string\<close> whose characters are the code points
  below 256. \<open>is_space\<close> is \<open>str.isspace\<close> on those code points; \<open>strip\<close> is
  \<open>str.strip()\<close> and \<open>strip_chars cs\<close> is \<open>str.strip(cs)\<close>.
\<close>

definition is_space :: "char \<Rightarrow> bool" where
  "is_space c =
     (c \<in> set [CHR 0x09, CHR 0x0A, CHR 0x0B, CHR 0x0C, CHR 0x0D, CHR 0x1C, CHR 0x1D,
                CHR 0x1E, CHR 0x1F, CHR 0x20, CHR 0x85, CHR 0xA0])"

definition lstrip_chars :: "char list \<Rightarrow> string \<Rightarrow> string" where
  "lstrip_chars cs s = dropWhile (\<lambda>c. c \<in> set cs) s"

definition strip_chars :: "char list \<Rightarrow> string \<Rightarrow> string" where
  "strip_chars cs s = rev (dropWhile (\<lambda>c. c \<in> set cs) (rev (dropWhile (\<lambda>c. c \<in> set cs) s)))"

definition strip :: "string \<Rightarrow> string" where
  "strip s = rev (dropWhile is_space (rev (dropWhile is_space s)))"

text \<open>\<open>startswith p s\<close> is \<open>s.startswith(p)\<close>.\<close>

definition startswith :: "string \<Rightarrow> string \<Rightarrow> bool" where
  "startswith p s = prefix p s"

text \<open>\<open>contains sub s\<close> is Python's \<open>sub in s\<close> on strings.\<close>

fun contains :: "string \<Rightarrow> string \<Rightarrow> bool" where
  "contains sub [] = (sub = [])"
| "contains sub (c # cs) = (if prefix sub (c # cs) then True else contains sub cs)"

text \<open>\<open>str(x)\<close> of an optional string: \<open>None\<close> prints as \<open>None\<close>.\<close>

definition str_opt :: "string option \<Rightarrow> string" where
  "str_opt v = (case v of None \<Rightarrow> ''None'' | Some s \<Rightarrow> s)"

section \<open>The proxy rotation middleware (plugins/proxy_rotator_plugin.py)\<close>

subsection \<open>State\<close>

text \<open>
  The attributes of a \<open>ProxyRotatorMiddleware\<close> object. Timestamps (\<open>time.time()\<close>)
  are real numbers; \<open>failed_proxies\<close> is the dictionary from proxy URL to the time of
  its last failure. The lock is not part of the state: whether a non-blocking
  \<open>acquire\<close> succeeds is an input of the call.
\<close>

record middleware =
  proxies :: "string list"
  failed_proxies :: "string \<rightharpoonup> real"
  proxy_index :: nat
  last_refresh_time :: real
  enabled :: bool
  mode :: string
  fail_codes :: "int set"
  fail_timeout :: int
  proxy_source_type :: string
  proxy_list_setting :: "string list"
  proxy_file_setting :: "string option"
  proxy_url_setting :: "string option"
  url_refresh_interval :: int

text \<open>
  What one call reads from outside the object: the module flag \<open>REQUESTS_AVAILABLE\<close>,
  the test \<open>urlparse(p).scheme in ('http', 'https') and urlparse(p).netloc\<close> (false
  when \<open>urlparse\<close> raises), the clock at each \<open>time.time()\<close>, the outcome of the
  non-blocking lock acquire, of the HTTP fetch and of reading the proxy file, and the
  index \<open>random.choice\<close> draws.
\<close>

datatype fetch_outcome =
    FetchText "string list"
  | FetchRequestException string
  | FetchException string

datatype file_outcome =
    NotAFile
  | FileLines "string list"
  | OpenFileNotFound string
  | OpenException string

record world =
  requests_available :: bool
  valid_url :: "string \<Rightarrow> bool"
  clock_refresh :: real
  lock_acquired :: bool
  fetch :: fetch_outcome
  file_read :: file_outcome
  clock_load :: real
  clock_expiry :: real
  random_index :: nat

subsection \<open>Loading the pool: \<open>_load_proxies\<close>\<close>

text \<open>The calls to the logger, one constructor per call site.\<close>

datatype log_event =
    ProxyFileNotFound string
  | FetchingProxies string
  | CannotFetchNoRequests
  | IgnoringInvalidProxy string
  | LoadedProxies nat string
  | NoValidProxies string
  | FailedToFetch string string
  | ProxyFileError string
  | ErrorLoadingProxies string

datatype log_level = Info | Warning | Error

fun log_level_of :: "log_event \<Rightarrow> log_level" where
  "log_level_of (ProxyFileNotFound _) = Error"
| "log_level_of (FetchingProxies _) = Info"
| "log_level_of CannotFetchNoRequests = Error"
| "log_level_of (IgnoringInvalidProxy _) = Warning"
| "log_level_of (LoadedProxies _ _) = Info"
| "log_level_of (NoValidProxies _) = Warning"
| "log_level_of (FailedToFetch _ _) = Error"
| "log_level_of (ProxyFileError _) = Error"
| "log_level_of (ErrorLoadingProxies _) = Error"

datatype load_exception =
    RequestException string
  | FileNotFoundError string
  | OtherException string

definition truthy :: "string option \<Rightarrow> bool" where
  "truthy v = (case v of None \<Rightarrow> False | Some s \<Rightarrow> s \<noteq> [])"

definition source_desc :: "middleware \<Rightarrow> string" where
  "source_desc m =
     (if proxy_source_type m = ''list'' then ''settings list''
      else if proxy_source_type m = ''file'' then ''file ('' @ str_opt (proxy_file_setting m) @ '')''
      else if proxy_source_type m = ''url'' then ''URL ('' @ str_opt (proxy_url_setting m) @ '')''
      else [])"

definition keep_line :: "string \<Rightarrow> bool" where
  "keep_line l = (strip l \<noteq> [] \<and> \<not> startswith ''#'' l)"

text \<open>
  The first part of the \<open>try\<close> block (lines 92 to 113): the candidate list, the events
  logged so far, and the object (only \<open>last_refresh_time\<close> may have changed), or the
  exception that left the block.
\<close>

definition read_source ::
  "world \<Rightarrow> middleware \<Rightarrow> log_event list \<times> (load_exception + string list \<times> middleware)" where
  "read_source w m =
     (if proxy_source_type m = ''list'' then
        ([], Inr (filter (\<lambda>p. strip p \<noteq> []) (proxy_list_setting m), m))
      else if proxy_source_type m = ''file'' then
        (if truthy (proxy_file_setting m) then
           (case file_read w of
              NotAFile \<Rightarrow> ([ProxyFileNotFound (str_opt (proxy_file_setting m))], Inr ([], m))
            | FileLines ls \<Rightarrow> ([], Inr (map strip (filter keep_line ls), m))
            | OpenFileNotFound e \<Rightarrow> ([], Inl (FileNotFoundError e))
            | OpenException e \<Rightarrow> ([], Inl (OtherException e)))
         else ([], Inr ([], m)))
      else if proxy_source_type m = ''url'' then
        (if truthy (proxy_url_setting m) \<and> requests_available w then
           (case fetch w of
              FetchText ls \<Rightarrow>
                ([FetchingProxies (str_opt (proxy_url_setting m))],
                 Inr (map strip (filter keep_line ls), m\<lparr>last_refresh_time := clock_load w\<rparr>))
            | FetchRequestException e \<Rightarrow>
                ([FetchingProxies (str_opt (proxy_url_setting m))], Inl (RequestException e))
            | FetchException e \<Rightarrow>
                ([FetchingProxies (str_opt (proxy_url_setting m))], Inl (OtherException e)))
         else
           ((if requests_available w then [] else [CannotFetchNoRequests]),
            Inr ([], m\<lparr>last_refresh_time := clock_load w\<rparr>)))
      else ([], Inr ([], m)))"

text \<open>
  The rest of \<open>_load_proxies\<close>: validation, the update of the pool, and the three
  handlers (lines 132 to 134). The handlers are modelled for runs in which the
  \<open>requests\<close> module is present whenever an exception leaves the block: without it the
  first handler's \<open>requests.RequestException\<close> cannot be evaluated and the call raises
  \<open>AttributeError\<close> instead of logging. The block raises only from a file read or a
  fetch, and a fetch is attempted only when the module is present.
\<close>

definition load_proxies :: "world \<Rightarrow> middleware \<Rightarrow> middleware \<times> log_event list" where
  "load_proxies w m =
     (case read_source w m of
        (lg, Inr (new_proxies, m1)) \<Rightarrow>
          (let validated_proxies = filter (valid_url w) new_proxies;
               ignored = map IgnoringInvalidProxy (filter (\<lambda>p. \<not> valid_url w p) new_proxies)
           in if validated_proxies \<noteq> [] then
                (m1\<lparr>proxies := validated_proxies, proxy_index := 0\<rparr>,
                 lg @ ignored @ [LoadedProxies (length validated_proxies) (source_desc m)])
              else (m1\<lparr>proxies := []\<rparr>, lg @ ignored @ [NoValidProxies (source_desc m)]))
      | (lg, Inl (RequestException e)) \<Rightarrow>
          (m, lg @ [FailedToFetch (str_opt (proxy_url_setting m)) e])
      | (lg, Inl (FileNotFoundError e)) \<Rightarrow> (m\<lparr>proxies := []\<rparr>, lg @ [ProxyFileError e])
      | (lg, Inl (OtherException e)) \<Rightarrow>
          (m\<lparr>proxies := []\<rparr>, lg @ [ErrorLoadingProxies (source_desc m)]))"

subsection \<open>Refreshing and expiring: \<open>_refresh_proxies_if_needed\<close>, \<open>_clear_expired_failures\<close>\<close>

definition refresh_due :: "world \<Rightarrow> middleware \<Rightarrow> bool" where
  "refresh_due w m =
     (real_of_int (url_refresh_interval m) < clock_refresh w - last_refresh_time m)"

definition refresh_proxies_if_needed :: "world \<Rightarrow> middleware \<Rightarrow> middleware" where
  "refresh_proxies_if_needed w m =
     (if proxy_source_type m = ''url'' \<and> url_refresh_interval m \<noteq> 0 \<and> requests_available w then
        (if refresh_due w m then
           (if lock_acquired w then
              (if refresh_due w m then fst (load_proxies w m) else m)
            else m)
         else m)
      else m)"

definition clear_expired_failures :: "real \<Rightarrow> middleware \<Rightarrow> middleware" where
  "clear_expired_failures now m =
     (if fail_timeout m = 0 then m
      else m\<lparr>failed_proxies :=
             (\<lambda>p. case failed_proxies m p of
                     None \<Rightarrow> None
                   | Some t \<Rightarrow> if real_of_int (fail_timeout m) < now - t then None else Some t)\<rparr>)"

subsection \<open>Selection: \<open>_get_proxy\<close>\<close>

definition available_proxies :: "middleware \<Rightarrow> string list" where
  "available_proxies m = filter (\<lambda>p. failed_proxies m p = None) (proxies m)"

text \<open>\<open>random.choice(xs)\<close> on a non-empty list; the draw is taken modulo the length.\<close>

definition random_choice :: "world \<Rightarrow> string list \<Rightarrow> string" where
  "random_choice w xs = xs ! (random_index w mod length xs)"

text \<open>
  \<open>list.index(x)\<close>: the position of the first element equal to \<open>x\<close>. It is only
  applied to an element of the list, where Python does not raise.
\<close>

definition index_of :: "string list \<Rightarrow> string \<Rightarrow> nat" where
  "index_of xs x = length (takeWhile (\<lambda>y. y \<noteq> x) xs)"

text \<open>The \<open>for\<close> loop of lines 163 to 168: the first candidate that is not failed.\<close>

definition sequential_walk :: "middleware \<Rightarrow> string option" where
  "sequential_walk m =
     (let n = length (proxies m); start_index = proxy_index m mod n
      in List.find (\<lambda>c. failed_proxies m c = None)
           (map (\<lambda>i. proxies m ! ((start_index + i) mod n)) [0..<n]))"

definition advance_index :: "string \<Rightarrow> middleware \<Rightarrow> middleware" where
  "advance_index p m = m\<lparr>proxy_index := (index_of (proxies m) p + 1) mod length (proxies m)\<rparr>"

text \<open>Lines 160 to 177, for a non-empty pool; \<open>available\<close> is \<open>available_proxies\<close> there.\<close>

definition choose_proxy :: "world \<Rightarrow> string list \<Rightarrow> middleware \<Rightarrow> string option \<times> middleware" where
  "choose_proxy w available m =
     (if mode m = ''sequential'' then
        (let (selected, m1) =
               (case sequential_walk m of
                  Some c \<Rightarrow> (Some c, advance_index c m)
                | None \<Rightarrow> (None, m))
         in if \<not> truthy selected \<and> available \<noteq> [] then
              (let p = random_choice w available
               in (Some p, if p \<noteq> [] then advance_index p m1 else m1))
            else (selected, m1))
      else if available \<noteq> [] then (Some (random_choice w available), m)
      else (None, m))"

definition get_proxy :: "world \<Rightarrow> middleware \<Rightarrow> string option \<times> middleware" where
  "get_proxy w m =
     (if proxies m = [] then (None, m)
      else
        (let m1 = refresh_proxies_if_needed w m;
             m2 = clear_expired_failures (clock_expiry w) m1
         in if available_proxies m2 = [] then
              (let m3 = m2\<lparr>failed_proxies := Map.empty\<rparr>
               in if proxies m3 = [] then (None, m3) else choose_proxy w (proxies m3) m3)
            else choose_proxy w (available_proxies m2) m2))"

text \<open>Consecutive calls, each with its own reading of the outside world.\<close>

fun get_proxy_calls :: "world list \<Rightarrow> middleware \<Rightarrow> string option list \<times> middleware" where
  "get_proxy_calls [] m = ([], m)"
| "get_proxy_calls (w # ws) m =
     (case get_proxy w m of
        (r, m1) \<Rightarrow> (case get_proxy_calls ws m1 of (rs, m2) \<Rightarrow> (r # rs, m2)))"

subsection \<open>The middleware hooks\<close>

record request =
  req_url :: string
  meta :: "string \<rightharpoonup> string"

record response =
  status :: int
  resp_url :: string

definition mark_failed :: "real \<Rightarrow> string option \<Rightarrow> middleware \<Rightarrow> middleware" where
  "mark_failed now proxy m =
     (case proxy of
        None \<Rightarrow> m
      | Some p \<Rightarrow> if p = [] then m else m\<lparr>failed_proxies := (failed_proxies m)(p \<mapsto> now)\<rparr>)"

definition process_request :: "world \<Rightarrow> request \<Rightarrow> middleware \<Rightarrow> request \<times> middleware" where
  "process_request w req m =
     (if \<not> enabled m then (req, m)
      else if proxies m = [] then (req, m)
      else if meta req ''proxy'' \<noteq> None then (req, m)
      else
        (case get_proxy w m of
           (proxy, m1) \<Rightarrow>
             (case proxy of
                None \<Rightarrow> (req, m1)
              | Some p \<Rightarrow>
                  if p = [] then (req, m1)
                  else (req\<lparr>meta := (meta req)(''proxy'' \<mapsto> p, ''_proxy_rotator_current'' \<mapsto> p)\<rparr>,
                        m1))))"

text \<open>
  \<open>process_response\<close> may hand back a response or a new request to the framework; the
  result type keeps both possibilities. \<open>now\<close> is the clock read by \<open>_mark_failed\<close>.
\<close>

definition process_response ::
  "real \<Rightarrow> request \<Rightarrow> response \<Rightarrow> middleware \<Rightarrow> (request + response) \<times> middleware" where
  "process_response now req resp m =
     (if \<not> enabled m then (Inr resp, m)
      else if status resp \<in> fail_codes m then
        (Inr resp, mark_failed now (meta req ''_proxy_rotator_current'') m)
      else (Inr resp, m))"

subsection \<open>Sample objects\<close>

text \<open>
  \<open>rotator\<close> is a middleware as \<open>__init__\<close> leaves it under the default settings
  (list source, cooldown 300 s), with a given pool, failure map, rotation index and mode;
  \<open>url_rotator\<close> is configured for a remote list; \<open>no_cooldown\<close> has the cooldown
  set to 0. \<open>outside now r\<close> is a world in which every clock reads \<open>now\<close>, the lock
  is free, the remote list is empty and \<open>random.choice\<close> draws index \<open>r\<close>.
\<close>

definition rotator :: "string list \<Rightarrow> (string \<rightharpoonup> real) \<Rightarrow> nat \<Rightarrow> string \<Rightarrow> middleware" where
  "rotator pool failed i md =
     \<lparr>proxies = pool, failed_proxies = failed, proxy_index = i, last_refresh_time = 0,
      enabled = True, mode = md, fail_codes = {403, 407, 429, 500, 502, 503, 504},
      fail_timeout = 300, proxy_source_type = ''list'', proxy_list_setting = pool,
      proxy_file_setting = None, proxy_url_setting = None, url_refresh_interval = 3600\<rparr>"

definition url_rotator :: "string list \<Rightarrow> middleware" where
  "url_rotator pool =
     (rotator pool Map.empty 0 ''random'')
       \<lparr>proxy_source_type := ''url'', proxy_url_setting := Some ''http://lists.example/proxies.txt''\<rparr>"


definition outside :: "real \<Rightarrow> nat \<Rightarrow> world" where
  "outside now r =
     \<lparr>requests_available = True, valid_url = (\<lambda>p. prefix ''http://'' p), clock_refresh = now,
      lock_acquired = True, fetch = FetchText [], file_read = NotAFile, clock_load = now,
      clock_expiry = now, random_index = r\<rparr>"

definition assigned :: request where
  "assigned =
     \<lparr>req_url = ''http://site.example/page'',
      meta = [''proxy'' \<mapsto> ''http://a:1'', ''_proxy_rotator_current'' \<mapsto> ''http://a:1'']\<rparr>"

text \<open>
  The states in which the sequential walk is a plain rotation: sequential mode, no
  remote refresh, a non-empty pool of pairwise different non-empty URLs, none failed.
\<close>

definition all_available :: "middleware \<Rightarrow> bool" where
  "all_available m =
     (mode m = ''sequential'' \<and> proxy_source_type m \<noteq> ''url'' \<and> proxies m \<noteq> []
      \<and> distinct (proxies m) \<and> [] \<notin> set (proxies m)
      \<and> list_all (\<lambda>p. failed_proxies m p = None) (proxies m))"

section \<open>The project file API (plugins/file_api_plugin.py)\<close>

subsection \<open>Paths and the file system\<close>

text \<open>
  POSIX paths. A \<open>path\<close> is the list of components of an absolute path below the root
  (\<open>/srv/shop\<close> is \<open>[''srv'', ''shop'']\<close>). The file system is a tree without symbolic
  links, so \<open>Path.resolve()\<close> only has to take the \<open>..\<close> components out. A file
  holds its text, or \<open>None\<close> when reading it raises \<open>OSError\<close>; a directory holds the
  names \<open>sorted(iterdir())\<close> yields, or \<open>None\<close> when listing it raises \<open>OSError\<close>.
\<close>

type_synonym path = "string list"

datatype node = File "string option" | Dir "string list option" | Special

type_synonym filesystem = "path \<rightharpoonup> node"

text \<open>\<open>s.split(c)\<close> for a one-character separator.\<close>

fun split_char :: "char \<Rightarrow> string \<Rightarrow> string list" where
  "split_char c [] = [[]]"
| "split_char c (x # xs) =
     (if x = c then [] # split_char c xs
      else (case split_char c xs of
              [] \<Rightarrow> [[x]]
            | y # ys \<Rightarrow> (x # y) # ys))"

text \<open>\<open>Path(s).parts\<close> without the root: empty and \<open>.\<close> components are dropped.\<close>

definition path_parts :: "string \<Rightarrow> string list" where
  "path_parts s = filter (\<lambda>p. p \<noteq> [] \<and> p \<noteq> ''.'') (split_char (CHR ''/'') s)"

fun join_slash :: "string list \<Rightarrow> string" where
  "join_slash [] = []"
| "join_slash [p] = p"
| "join_slash (p # q # ps) = p @ ''/'' @ join_slash (q # ps)"

text \<open>\<open>str(p)\<close> of an absolute path.\<close>

definition path_str :: "path \<Rightarrow> string" where
  "path_str p = ''/'' @ join_slash p"

text \<open>\<open>str(Path(s))\<close> of any string: the root (one slash, or two when there are exactly two).\<close>

definition pure_path_str :: "string \<Rightarrow> string" where
  "pure_path_str s =
     (let root = (if prefix ''//'' s \<and> \<not> prefix ''///'' s then ''//''
                  else if prefix ''/'' s then ''/'' else [])
      in if root = [] \<and> path_parts s = [] then ''.'' else root @ join_slash (path_parts s))"

text \<open>\<open>base.joinpath(*parts).resolve()\<close> from a resolved \<open>base\<close>; the parent of the root is the root.\<close>

fun resolve_from :: "path \<Rightarrow> string list \<Rightarrow> path" where
  "resolve_from base [] = base"
| "resolve_from base (p # ps) =
     (if p = ''..'' then resolve_from (butlast base) ps else resolve_from (base @ [p]) ps)"

definition exists_path :: "filesystem \<Rightarrow> path \<Rightarrow> bool" where
  "exists_path fs p = (fs p \<noteq> None)"

definition is_dir :: "filesystem \<Rightarrow> path \<Rightarrow> bool" where
  "is_dir fs p = (case fs p of Some (Dir _) \<Rightarrow> True | _ \<Rightarrow> False)"

definition is_file :: "filesystem \<Rightarrow> path \<Rightarrow> bool" where
  "is_file fs p = (case fs p of Some (File _) \<Rightarrow> True | _ \<Rightarrow> False)"

text \<open>\<open>item.relative_to(base)\<close>: \<open>None\<close> is the \<open>ValueError\<close> for an item not below \<open>base\<close>.\<close>

definition relative_to :: "path \<Rightarrow> path \<Rightarrow> string list option" where
  "relative_to base item = (if prefix base item then Some (drop (length base) item) else None)"

definition relative_str :: "string list \<Rightarrow> string" where
  "relative_str ps = (if ps = [] then ''.'' else join_slash ps)"

definition backslashes_to_slashes :: "string \<Rightarrow> string" where
  "backslashes_to_slashes s = map (\<lambda>c. if c = CHR 0x5C then CHR ''/'' else c) s"

definition ascii_lower :: "char \<Rightarrow> char" where
  "ascii_lower c =
     (let n = (of_char c :: nat) in if 65 \<le> n \<and> n \<le> 90 then char_of (n + 32) else c)"

text \<open>\<open>PurePath.suffix\<close> of a file name: from the last dot, unless that dot is first or last.\<close>

definition suffix_of :: "string \<Rightarrow> string" where
  "suffix_of name =
     (let after = rev (takeWhile (\<lambda>c. c \<noteq> CHR ''.'') (rev name))
      in if CHR ''.'' \<in> set name \<and> after \<noteq> [] \<and> length after + 1 < length name
         then CHR ''.'' # after else [])"

subsection \<open>The route \<open>list_or_get_file\<close>\<close>

text \<open>
  The replies of the view: \<open>abort(code)\<close>, the JSON listing (its \<open>path\<close> and, for each
  item, name, type and path), a file's text with its content type, or an exception the
  view does not catch (the server answers 500).
\<close>

datatype reply =
    Abort nat
  | Listing string "(string \<times> string \<times> string) list"
  | Content string string
  | Unhandled

definition content_type_of :: "path \<Rightarrow> string" where
  "content_type_of p =
     (let suffix = (if p = [] then [] else map ascii_lower (suffix_of (last p)))
      in if suffix = ''.json'' then ''application/json; charset=utf-8''
         else if suffix = ''.py'' then ''text/x-python; charset=utf-8''
         else if suffix = ''.html'' then ''text/html; charset=utf-8''
         else ''text/plain; charset=utf-8'')"

text \<open>The loop of lines 116 to 123; \<open>None\<close> when \<open>relative_to\<close> raises.\<close>

fun list_items ::
  "filesystem \<Rightarrow> path \<Rightarrow> path \<Rightarrow> string list \<Rightarrow> (string \<times> string \<times> string) list option" where
  "list_items fs base dir [] = Some []"
| "list_items fs base dir (name # names) =
     (case relative_to base (dir @ [name]) of
        None \<Rightarrow> None
      | Some rel \<Rightarrow>
          (case list_items fs base dir names of
             None \<Rightarrow> None
           | Some items \<Rightarrow>
               Some ((name, (if is_dir fs (dir @ [name]) then ''dir'' else ''file''),
                      backslashes_to_slashes (relative_str rel)) # items)))"

text \<open>
  Lines 74 to 89: the base directory is the module directory \<open>outer / project_name\<close>,
  or the outer directory when only that holds a \<open>settings.py\<close>. The route's
  \<open>string\<close> converter gives a project name without a slash.
\<close>

definition base_project_path :: "filesystem \<Rightarrow> path \<Rightarrow> string \<Rightarrow> path option" where
  "base_project_path fs outer project_name =
     (let base = resolve_from outer (path_parts project_name)
      in if is_dir fs base then Some base
         else if exists_path fs (outer @ [''settings.py'']) then Some outer
         else None)"

text \<open>The containment test of line 104, on the strings of the two paths.\<close>

definition within_base :: "path \<Rightarrow> path \<Rightarrow> bool" where
  "within_base base full_path = startswith (path_str base) (path_str full_path)"

definition list_or_get_file ::
  "(string \<rightharpoonup> path) \<Rightarrow> filesystem \<Rightarrow> string \<Rightarrow> string \<Rightarrow> reply" where
  "list_or_get_file projects fs project_name sub_path =
     (case projects project_name of
        None \<Rightarrow> Abort 404
      | Some outer \<Rightarrow>
          (case base_project_path fs outer project_name of
             None \<Rightarrow> Abort 500
           | Some base \<Rightarrow>
               (let safe_sub_path_str = lstrip_chars [CHR ''/'', CHR 0x5C] sub_path;
                    path_parts' = filter (\<lambda>p. p \<noteq> [] \<and> p \<noteq> ''.'') (path_parts safe_sub_path_str);
                    full_path = resolve_from base path_parts'
                in if CHR 0x00 \<in> set safe_sub_path_str then Abort 400
                   else if \<not> within_base base full_path then Abort 403
                   else if \<not> exists_path fs full_path then Abort 404
                   else
                     (case fs full_path of
                        Some (Dir (Some names)) \<Rightarrow>
                          (case list_items fs base full_path names of
                             None \<Rightarrow> Unhandled
                           | Some items \<Rightarrow>
                               Listing (backslashes_to_slashes (pure_path_str sub_path)) items)
                      | Some (Dir None) \<Rightarrow> Abort 500
                      | Some (File (Some text)) \<Rightarrow> Content text (content_type_of full_path)
                      | Some (File None) \<Rightarrow> Abort 500
                      | _ \<Rightarrow> Abort 404))))"

text \<open>
  What the specification asks of the test: the resolved path lies inside the base
  directory, that is, the base's components are the first components of the path.
\<close>

definition inside_base :: "path \<Rightarrow> path \<Rightarrow> bool" where
  "inside_base base full_path = prefix base full_path"

subsection \<open>A sample installation\<close>

text \<open>
  Project \<open>shop\<close> in \<open>/srv/shop\<close>: the module directory \<open>/srv/shop/shop\<close> and, next to
  it, \<open>/srv/shop/shop_private\<close> with a file of secrets.
\<close>

definition shop_projects :: "string \<rightharpoonup> path" where
  "shop_projects = [''shop'' \<mapsto> [''srv'', ''shop'']]"

definition shop_fs :: filesystem where
  "shop_fs =
     [[''srv''] \<mapsto> Dir (Some [''shop'']),
      [''srv'', ''shop''] \<mapsto> Dir (Some [''scrapy.cfg'', ''shop'', ''shop_private'']),
      [''srv'', ''shop'', ''scrapy.cfg''] \<mapsto> File (Some ''[settings]''),
      [''srv'', ''shop'', ''shop''] \<mapsto> Dir (Some [''settings.py'', ''spiders'']),
      [''srv'', ''shop'', ''shop'', ''settings.py''] \<mapsto> File (Some ''BOT_NAME = 1''),
      [''srv'', ''shop'', ''shop'', ''spiders''] \<mapsto> Dir (Some []),
      [''srv'', ''shop'', ''shop_private''] \<mapsto> Dir (Some [''secrets.txt'']),
      [''srv'', ''shop'', ''shop_private'', ''secrets.txt''] \<mapsto> File (Some ''API_KEY=12345'')]"

section \<open>The log analyzer (plugins/log_analyzer_plugin.py)\<close>

subsection \<open>Values and library functions\<close>

text \<open>
  A value of the raw statistics is what \<open>json.loads\<close> returned (an integer, a float, a
  boolean, a string, or something else: \<open>null\<close>, a list, an object) or the fallback
  string. Floats are idealised as real numbers. The two library functions the parser
  calls are parameters: \<open>json_loads\<close> (\<open>None\<close> is \<open>JSONDecodeError\<close>) and \<open>int\<close>
  applied to a string (\<open>None\<close> is \<open>ValueError\<close>).
\<close>

datatype jvalue = JInt int | JFloat real | JBool bool | JStr string | JOther

record pylib =
  json_loads :: "string \<Rightarrow> jvalue option"
  int_of_str :: "string \<Rightarrow> int option"

text \<open>\<open>int(value)\<close>; \<open>None\<close> when Python raises.\<close>

definition py_int :: "pylib \<Rightarrow> jvalue \<Rightarrow> int option" where
  "py_int lib v =
     (case v of
        JInt n \<Rightarrow> Some n
      | JFloat r \<Rightarrow> Some (if 0 \<le> r then \<lfloor>r\<rfloor> else \<lceil>r\<rceil>)
      | JBool b \<Rightarrow> Some (if b then 1 else 0)
      | JStr s \<Rightarrow> int_of_str lib s
      | JOther \<Rightarrow> None)"

text \<open>The number a value stands for in a comparison or a division; \<open>None\<close> is \<open>TypeError\<close>.\<close>

definition num_of :: "jvalue \<Rightarrow> real option" where
  "num_of v =
     (case v of
        JInt n \<Rightarrow> Some (real_of_int n)
      | JFloat r \<Rightarrow> Some r
      | JBool b \<Rightarrow> Some (if b then 1 else 0)
      | JStr s \<Rightarrow> None
      | JOther \<Rightarrow> None)"

subsection \<open>The regular expressions\<close>

definition quote :: char where
  "quote = CHR 0x27"

definition is_digit :: "char \<Rightarrow> bool" where
  "is_digit c = (c \<in> set ''0123456789'')"

definition strip_prefix :: "string \<Rightarrow> string \<Rightarrow> string option" where
  "strip_prefix p s = (if prefix p s then Some (drop (length p) s) else None)"

text \<open>
  Matching a template at the start of a string: \<open>d\<close> in the template is \<open>\d\<close>, every
  other character is itself. The result is the rest of the string.
\<close>

fun match_template :: "string \<Rightarrow> string \<Rightarrow> string option" where
  "match_template [] s = Some s"
| "match_template (t # ts) [] = None"
| "match_template (t # ts) (c # cs) =
     (if (if t = CHR ''d'' then is_digit c else c = t) then match_template ts cs else None)"

text \<open>
  \<open>REGEX_ERROR.match(line)\<close> and \<open>REGEX_WARNING.match(line)\<close>, for \<open>level\<close> \<open>ERROR\<close>
  or \<open>WARNING\<close>: the timestamp, a bracketed run of non-space characters, the level, and
  group 1, the rest of the line. \<open>\S+\]\<close> followed by a space can only match the whole
  run of non-space characters after the opening bracket.
\<close>

definition match_level :: "string \<Rightarrow> string \<Rightarrow> string option" where
  "match_level level line =
     (case match_template ''dddd-dd-dd dd:dd:dd ['' line of
        None \<Rightarrow> None
      | Some r \<Rightarrow>
          (let w = takeWhile (\<lambda>c. \<not> is_space c) r;
               rest = dropWhile (\<lambda>c. \<not> is_space c) r
           in if 2 \<le> length w \<and> last w = CHR '']'' then
                (case strip_prefix ('' '' @ level @ '': '') rest of
                   None \<Rightarrow> None
                 | Some g \<Rightarrow> Some (takeWhile (\<lambda>c. c \<noteq> CHR 0x0A) g))
              else None))"

text \<open>
  \<open>REGEX_RESPONSE_STATUS.match(key)\<close>, group 1: a quote, the key prefix, digits, a
  quote, a colon, a space and a digit.
\<close>

definition match_response_status :: "string \<Rightarrow> string option" where
  "match_response_status key =
     (case strip_prefix (quote # ''downloader/response_status_count/'') key of
        None \<Rightarrow> None
      | Some r \<Rightarrow>
          (let ds = takeWhile is_digit r; rest = dropWhile is_digit r
           in if ds \<noteq> [] \<and> prefix [quote, CHR '':'', CHR '' ''] rest
                 \<and> (case drop 3 rest of [] \<Rightarrow> False | c # _ \<Rightarrow> is_digit c)
              then Some ds else None))"

subsection \<open>The pass over the lines\<close>

text \<open>\<open>line.split(': ')\<close>; the first argument collects the current piece, reversed.\<close>

fun split_colon_space :: "string \<Rightarrow> string \<Rightarrow> string list" where
  "split_colon_space acc [] = [rev acc]"
| "split_colon_space acc [c] = [rev (c # acc)]"
| "split_colon_space acc (c # d # cs) =
     (if c = CHR '':'' \<and> d = CHR '' '' then rev acc # split_colon_space [] cs
      else split_colon_space (c # acc) (d # cs))"

text \<open>
  The dictionaries of the results, in insertion order; the counters are
  \<open>defaultdict(int)\<close>. The fields \<open>log_errors\<close> and \<open>log_warnings\<close> are
  \<open>results['errors']\<close> and \<open>results['warnings']\<close>.
\<close>

record analysis =
  log_errors :: "(string \<times> int) list"
  log_warnings :: "(string \<times> int) list"
  raw_stats :: "(string \<times> jvalue) list"
  status_codes :: "(string \<times> int) list"
  line_count :: nat
  in_stats_dump :: bool

definition add_count :: "string \<Rightarrow> int \<Rightarrow> (string \<times> int) list \<Rightarrow> (string \<times> int) list" where
  "add_count k n counts =
     AList.update k ((case map_of counts k of None \<Rightarrow> 0 | Some c \<Rightarrow> c) + n) counts"

text \<open>Lines 315 to 323 and 335 to 340: a line \<open>key: value\<close> as a key and its value.\<close>

definition parse_stat :: "pylib \<Rightarrow> string \<Rightarrow> (string \<times> jvalue) option" where
  "parse_stat lib line =
     (case split_colon_space [] line of
        [k, v] \<Rightarrow>
          (let key = strip_chars [quote] (strip k);
               value_str = strip_chars '','' (strip v)
           in Some (key, (case json_loads lib value_str of
                            Some value \<Rightarrow> value
                          | None \<Rightarrow> JStr (strip_chars [quote] value_str))))
      | _ \<Rightarrow> None)"

datatype analysis_error = LogFileNotFound | FailedToReadOrParse

text \<open>Lines 314 to 330, for a line inside the statistics dump.\<close>

definition stats_line :: "pylib \<Rightarrow> string \<Rightarrow> analysis \<Rightarrow> analysis_error + analysis" where
  "stats_line lib line a =
     (case parse_stat lib line of
        None \<Rightarrow> Inr a
      | Some (key, value) \<Rightarrow>
          (let a1 = a\<lparr>raw_stats := AList.update key value (raw_stats a)\<rparr>
           in case match_response_status key of
                None \<Rightarrow> Inr a1
              | Some code \<Rightarrow>
                  (case py_int lib value of
                     None \<Rightarrow> Inl FailedToReadOrParse
                   | Some n \<Rightarrow> Inr (a1\<lparr>status_codes := add_count code n (status_codes a1)\<rparr>))))"

text \<open>Lines 332 to 341, for the line that starts the dump.\<close>

definition first_stats_line :: "pylib \<Rightarrow> string \<Rightarrow> analysis \<Rightarrow> analysis" where
  "first_stats_line lib line a =
     (case parse_stat lib line of
        None \<Rightarrow> a
      | Some (key, value) \<Rightarrow> a\<lparr>raw_stats := AList.update key value (raw_stats a)\<rparr>)"

definition traceback_message :: "string \<Rightarrow> string" where
  "traceback_message msg =
     (if contains ''Traceback (most recent call last)'' msg
      then ''Traceback occurred (see log for details)'' else msg)"

text \<open>The body of the loop over the lines of the file (lines 291 to 341).\<close>

definition process_line :: "pylib \<Rightarrow> analysis \<Rightarrow> string \<Rightarrow> analysis_error + analysis" where
  "process_line lib a0 raw_line =
     (let a = a0\<lparr>line_count := line_count a0 + 1\<rparr>; line = strip raw_line
      in if line = [] then Inr a
         else
           (case match_level ''ERROR'' line of
              Some g \<Rightarrow> Inr (a\<lparr>log_errors := add_count (traceback_message (strip g)) 1 (log_errors a)\<rparr>)
            | None \<Rightarrow>
                (case match_level ''WARNING'' line of
                   Some g \<Rightarrow> Inr (a\<lparr>log_warnings := add_count (strip g) 1 (log_warnings a)\<rparr>)
                 | None \<Rightarrow>
                     (let a1 = (if line = ''}'' then a\<lparr>in_stats_dump := False\<rparr> else a)
                      in case (if in_stats_dump a1 then stats_line lib line a1 else Inr a1) of
                           Inl e \<Rightarrow> Inl e
                         | Inr a2 \<Rightarrow>
                             Inr (if contains (quote # ''downloader/response_count'' @ [quote, CHR '':'']) line
                                  then first_stats_line lib line (a2\<lparr>in_stats_dump := True\<rparr>)
                                  else a2)))))"

fun process_lines :: "pylib \<Rightarrow> analysis \<Rightarrow> string list \<Rightarrow> analysis_error + analysis" where
  "process_lines lib a [] = Inr a"
| "process_lines lib a (l # ls) =
     (case process_line lib a l of
        Inl e \<Rightarrow> Inl e
      | Inr a1 \<Rightarrow> process_lines lib a1 ls)"

subsection \<open>The summary\<close>

record summary =
  error_count :: int
  warning_count :: int
  item_scraped_count :: jvalue
  finish_reason :: jvalue
  elapsed_seconds :: jvalue
  total_requests :: jvalue
  total_responses :: jvalue
  avg_req_per_sec :: real
  avg_item_per_sec :: real
  http_success_rate :: real

definition stat_or :: "(string \<times> jvalue) list \<Rightarrow> string \<Rightarrow> jvalue \<Rightarrow> jvalue" where
  "stat_or stats k d = (case map_of stats k of None \<Rightarrow> d | Some v \<Rightarrow> v)"

text \<open>Line 362: the sum of the counts whose status code starts with \<open>2\<close>.\<close>

definition success_codes :: "(string \<times> int) list \<Rightarrow> int" where
  "success_codes codes = sum_list (map snd (filter (\<lambda>(code, count). startswith ''2'' code) codes))"

text \<open>
  Lines 344 to 366. A comparison or a division on a value that is not a number raises
  \<open>TypeError\<close>, which line 373 turns into the exception of a failed analysis.
\<close>

definition compute_summary :: "analysis \<Rightarrow> analysis_error + summary" where
  "compute_summary a =
     (let items = stat_or (raw_stats a) ''item_scraped_count'' (JInt 0);
          elapsed = stat_or (raw_stats a) ''elapsed_time_seconds'' (JFloat 0);
          requests = stat_or (raw_stats a) ''downloader/request_count'' (JInt 0);
          responses = stat_or (raw_stats a) ''downloader/response_count'' (JInt 0)
      in case num_of elapsed of
           None \<Rightarrow> Inl FailedToReadOrParse
         | Some el \<Rightarrow>
             (case (if 0 < el
                    then (case (num_of requests, num_of items) of
                            (Some rq, Some it) \<Rightarrow> Some (rq / el, it / el)
                          | _ \<Rightarrow> None)
                    else Some (0, 0)) of
                None \<Rightarrow> Inl FailedToReadOrParse
              | Some (req_rate, item_rate) \<Rightarrow>
                  (case num_of responses of
                     None \<Rightarrow> Inl FailedToReadOrParse
                   | Some n_responses \<Rightarrow>
                       Inr \<lparr>error_count = sum_list (map snd (log_errors a)),
                            warning_count = sum_list (map snd (log_warnings a)),
                            item_scraped_count = items,
                            finish_reason = stat_or (raw_stats a) ''finish_reason'' (JStr ''N/A''),
                            elapsed_seconds = elapsed,
                            total_requests = requests,
                            total_responses = responses,
                            avg_req_per_sec = req_rate,
                            avg_item_per_sec = item_rate,
                            http_success_rate =
                              (if 0 < n_responses
                               then real_of_int (success_codes (status_codes a)) / n_responses * 100
                               else 0)\<rparr>)))"

subsection \<open>\<open>_analyze_log_file\<close>\<close>

datatype log_file = MissingLog | UnreadableLog | LogLines "string list"

definition empty_analysis :: analysis where
  "empty_analysis =
     \<lparr>log_errors = [], log_warnings = [], raw_stats = [], status_codes = [],
      line_count = 0, in_stats_dump = False\<rparr>"

definition analyze_log_file :: "pylib \<Rightarrow> log_file \<Rightarrow> analysis_error + analysis \<times> summary" where
  "analyze_log_file lib f =
     (case f of
        MissingLog \<Rightarrow> Inl LogFileNotFound
      | UnreadableLog \<Rightarrow> Inl FailedToReadOrParse
      | LogLines ls \<Rightarrow>
          (case process_lines lib empty_analysis ls of
             Inl e \<Rightarrow> Inl FailedToReadOrParse
           | Inr a \<Rightarrow>
               (case compute_summary a of
                  Inl e \<Rightarrow> Inl FailedToReadOrParse
                | Inr s \<Rightarrow> Inr (a, s))))"

subsection \<open>A sample log\<close>

text \<open>
  \<open>decimal_lib\<close> decodes the decimal literals of the natural numbers as \<open>json.loads\<close>
  and \<open>int\<close> do and rejects every other string; the sample log holds no other value.
  \<open>stats_dump\<close> is the end of a crawl log: 100 responses, 80 of them with status 200.
\<close>

definition decimal :: "string \<Rightarrow> int option" where
  "decimal s =
     (if s \<noteq> [] \<and> list_all is_digit s \<and> (length s = 1 \<or> hd s \<noteq> CHR ''0'')
      then Some (foldl (\<lambda>n c. 10 * n + (int (of_char c) - 48)) 0 s) else None)"

definition decimal_lib :: pylib where
  "decimal_lib = \<lparr>json_loads = (\<lambda>s. map_option JInt (decimal s)), int_of_str = decimal\<rparr>"

definition stats_dump :: "string list" where
  "stats_dump =
     [''2024-05-01 10:00:00 [scrapy.statscollectors] INFO: Dumping Scrapy stats:'',
      ''{'' @ [quote] @ ''downloader/request_count'' @ [quote] @ '': 100,'',
      '' '' @ [quote] @ ''downloader/response_count'' @ [quote] @ '': 100,'',
      '' '' @ [quote] @ ''downloader/response_status_count/200'' @ [quote] @ '': 80,'',
      '' '' @ [quote] @ ''downloader/response_status_count/404'' @ [quote] @ '': 20,'',
      '' '' @ [quote] @ ''finish_reason'' @ [quote] @ '': '' @ [quote] @ ''finished'' @ [quote] @ '','',
      '' '' @ [quote] @ ''item_scraped_count'' @ [quote] @ '': 75,'',
      '' '' @ [quote] @ ''log_count/INFO'' @ [quote] @ '': 10}'']"

section \<open>The settings advisor (plugins/settings_advisor_plugin.py)\<close>

subsection \<open>Values, syntax trees and library functions\<close>

text \<open>
  What \<open>ast.literal_eval\<close> can return: \<open>None\<close>, a boolean, an integer, a float
  (idealised as a real number), a string, or another literal (bytes, a tuple, a list, a
  dictionary, a set, a complex number).
\<close>

datatype pyval = PNone | PBool bool | PInt int | PFloat real | PStr string | POther

text \<open>
  The syntax tree is seen through its \<open>ast.Assign\<close> nodes, in the order \<open>ast.walk\<close>
  yields them. A target is a name (in an assignment its context is \<open>Store\<close>) or
  something else (an attribute, a subscript, a tuple). The value nodes are of an
  arbitrary type \<open>'n\<close>.
\<close>

datatype target = Name string | OtherTarget

record 'n assign =
  targets :: "target list"
  value_node :: 'n
  lineno :: int

text \<open>
  The outcome of lines 265 to 287: the file cannot be read or \<open>ast.parse\<close> raises
  something other than \<open>SyntaxError\<close> (with the text of the exception); the text is read
  and \<open>ast.parse\<close> raises \<open>SyntaxError\<close> (with \<open>lineno\<close>, \<open>msg\<close>, \<open>text\<close>); or
  the text is read and parsed.
\<close>

datatype 'n source =
    Unreadable string
  | SyntaxError "int option" string "string option" string
  | Parsed string "'n assign list"

text \<open>
  The library functions are parameters: \<open>ast.literal_eval\<close> on a value node (\<open>None\<close>
  when it raises one of the exceptions \<open>_get_node_value\<close> catches) and
  \<open>re.search(pattern, content, re.MULTILINE)\<close> as a truth value. The patterns are
  well-formed: the two fixed ones are, and project names are identifiers.
\<close>

record 'n pyast =
  literal_eval :: "'n \<Rightarrow> pyval option"
  re_search :: "string \<Rightarrow> string \<Rightarrow> bool"

subsection \<open>Result entries\<close>

text \<open>
  A formatted string is kept as its pieces: literal text, an interpolated value, an
  interpolated optional line number, an interpolated optional string.
\<close>

datatype piece = T string | V pyval | L "int option" | S "string option"

record entry =
  message :: "piece list"
  details :: "piece list option"
  file_path :: string
  line :: "int option"
  url :: "string option"

record results =
  warnings :: "entry list"
  recommendations :: "entry list"
  info :: "entry list"

definition syntax_warning :: "string \<Rightarrow> int option \<Rightarrow> string \<Rightarrow> string option \<Rightarrow> entry" where
  "syntax_warning path lno msg txt =
     \<lparr>message = [T ''Syntax error (line '', L lno, T ''): '', T msg],
      details = Some [T ''Near: '', S txt], file_path = path, line = lno, url = None\<rparr>"

definition unreadable_warning :: "string \<Rightarrow> string \<Rightarrow> entry" where
  "unreadable_warning path e =
     \<lparr>message = [T ''Could not read or parse settings file.''],
      details = Some [T ''Error: '', T e], file_path = path, line = None, url = None\<rparr>"

definition syntax_passed_info :: "string \<Rightarrow> entry" where
  "syntax_passed_info path =
     \<lparr>message = [T ''Syntax check passed.''], details = None, file_path = path, line = None,
      url = None\<rparr>"

definition robots_url :: string where
  "robots_url = ''https://docs.scrapy.org/en/latest/topics/settings.html#robotstxt-obey''"

definition robots_warning :: "string \<Rightarrow> int \<Rightarrow> entry" where
  "robots_warning path lno =
     \<lparr>message = [T ''`ROBOTSTXT_OBEY` is set to False.''],
      details = Some [T ''Ensure you have permission and understand the implications of ignoring robots.txt.''],
      file_path = path, line = Some lno, url = Some robots_url\<rparr>"

definition robots_set_info :: "string \<Rightarrow> int \<Rightarrow> entry" where
  "robots_set_info path lno =
     \<lparr>message = [T ''`ROBOTSTXT_OBEY` is explicitly set (likely True).''], details = None,
      file_path = path, line = Some lno, url = Some robots_url\<rparr>"

definition robots_unset_info :: "string \<Rightarrow> entry" where
  "robots_unset_info path =
     \<lparr>message = [T ''`ROBOTSTXT_OBEY` is not explicitly set (defaults to True).''],
      details = Some [T ''Scrapy respects robots.txt by default.''],
      file_path = path, line = None, url = Some robots_url\<rparr>"

definition ua_url :: string where
  "ua_url = ''https://docs.scrapy.org/en/latest/topics/settings.html#user-agent''"

definition ua_advice :: "piece list" where
  "ua_advice =
     [T (''Set a custom User-Agent identifying your bot (e.g., '' @ [CHR 0x27]
         @ ''MyBot (+http://mywebsite.com)'' @ [CHR 0x27] @ '') for politeness.'')]"

definition default_ua_rec :: "string \<Rightarrow> int \<Rightarrow> entry" where
  "default_ua_rec path lno =
     \<lparr>message = [T ''Default `USER_AGENT` is likely used.''], details = Some ua_advice,
      file_path = path, line = Some lno, url = Some ua_url\<rparr>"

definition custom_ua_info :: "string \<Rightarrow> int \<Rightarrow> entry" where
  "custom_ua_info path lno =
     \<lparr>message = [T ''Custom `USER_AGENT` seems to be set.''], details = None,
      file_path = path, line = Some lno, url = Some ua_url\<rparr>"

definition missing_ua_rec :: "string \<Rightarrow> entry" where
  "missing_ua_rec path =
     \<lparr>message = [T ''`USER_AGENT` is likely commented out or missing.''],
      details = Some ua_advice, file_path = path, line = None, url = Some ua_url\<rparr>"

definition low_delay_rec :: "string \<Rightarrow> int option \<Rightarrow> pyval \<Rightarrow> entry" where
  "low_delay_rec path lno delay_value =
     \<lparr>message = [T ''Low/No `DOWNLOAD_DELAY` without AutoThrottle.''],
      details = Some [T ''Consider setting DOWNLOAD_DELAY >= 0.5 or enabling AUTOTHROTTLE_ENABLED for politeness. Current delay appears to be '',
                      (if delay_value = PNone then T ''default (0)'' else V delay_value),
                      T ''.''],
      file_path = path, line = lno,
      url = Some ''https://docs.scrapy.org/en/latest/topics/settings.html#download-delay''\<rparr>"

definition high_concurrency_rec :: "string \<Rightarrow> int option \<Rightarrow> pyval \<Rightarrow> pyval \<Rightarrow> entry" where
  "high_concurrency_rec path lno conc_domain_value conc_ip_value =
     \<lparr>message = [T ''High concurrency without AutoThrottle.''],
      details = Some [T ''Consider lowering CONCURRENT_REQUESTS_PER_DOMAIN/IP (currently ~'',
                      V conc_domain_value, T ''/'', V conc_ip_value,
                      T '') or enabling AUTOTHROTTLE_ENABLED to avoid overloading servers.''],
      file_path = path, line = lno,
      url = Some ''https://docs.scrapy.org/en/latest/topics/settings.html#concurrent-requests-per-domain''\<rparr>"

definition autothrottle_info :: "string \<Rightarrow> int option \<Rightarrow> entry" where
  "autothrottle_info path lno =
     \<lparr>message = [T ''`AUTOTHROTTLE_ENABLED` is True.''],
      details = Some [T ''AutoThrottle adjusts delays/concurrency automatically.''],
      file_path = path, line = lno,
      url = Some ''https://docs.scrapy.org/en/latest/topics/autothrottle.html''\<rparr>"

definition cache_url :: string where
  "cache_url =
     ''https://docs.scrapy.org/en/latest/topics/downloader-middleware.html#httpcache-middleware-settings''"

definition cache_disabled_rec :: "string \<Rightarrow> int option \<Rightarrow> entry" where
  "cache_disabled_rec path lno =
     \<lparr>message = [T ''HTTP Caching is disabled.''],
      details = Some [T ''Enable `HTTPCACHE_ENABLED = True` during development to speed up repeated crawls by caching requests.''],
      file_path = path, line = lno, url = Some cache_url\<rparr>"

definition cache_enabled_info :: "string \<Rightarrow> int \<Rightarrow> entry" where
  "cache_enabled_info path lno =
     \<lparr>message = [T ''`HTTPCACHE_ENABLED` is True.''],
      details = Some [T ''Caching requests can speed up development.''],
      file_path = path, line = Some lno, url = Some cache_url\<rparr>"

definition playwright_info :: "string \<Rightarrow> entry" where
  "playwright_info path =
     \<lparr>message = [T ''Playwright integration detected.''],
      details = Some [T ''Ensure DOWNLOAD_HANDLERS and TWISTED_REACTOR are set correctly.''],
      file_path = path, line = None, url = None\<rparr>"

definition splash_info :: "string \<Rightarrow> entry" where
  "splash_info path =
     \<lparr>message = [T ''Splash integration detected.''],
      details = Some [T ''Ensure SPLASH_URL and relevant middlewares are configured.''],
      file_path = path, line = None, url = None\<rparr>"

definition redis_info :: "string \<Rightarrow> entry" where
  "redis_info path =
     \<lparr>message = [T ''Scrapy-Redis integration detected.''],
      details = Some [T ''Ensure SCHEDULER, DUPEFILTER_CLASS, and Redis connection settings are correct.''],
      file_path = path, line = None, url = None\<rparr>"

subsection \<open>The assignments found\<close>

text \<open>
  Lines 290 to 297: \<open>settings_found\<close> maps a name to the value node and line of the
  assignment to it that the walk visits last.
\<close>

type_synonym 'n found = "string \<rightharpoonup> 'n \<times> int"

fun store_targets :: "'n assign \<Rightarrow> target list \<Rightarrow> 'n found \<Rightarrow> 'n found" where
  "store_targets node [] found = found"
| "store_targets node (Name setting_name # ts) found =
     store_targets node ts (found(setting_name \<mapsto> (value_node node, lineno node)))"
| "store_targets node (OtherTarget # ts) found = store_targets node ts found"

fun settings_found :: "'n assign list \<Rightarrow> 'n found \<Rightarrow> 'n found" where
  "settings_found [] found = found"
| "settings_found (node # nodes) found =
     settings_found nodes (store_targets node (targets node) found)"

text \<open>\<open>_get_node_value\<close>: a value that cannot be evaluated is \<open>None\<close>.\<close>

definition get_node_value :: "'n pyast \<Rightarrow> 'n option \<Rightarrow> pyval" where
  "get_node_value lib node =
     (case node of
        None \<Rightarrow> PNone
      | Some n \<Rightarrow> (case literal_eval lib n of Some v \<Rightarrow> v | None \<Rightarrow> PNone))"

text \<open>The value of a setting that was found, as the checks read it.\<close>

definition setting_value :: "'n pyast \<Rightarrow> 'n found \<Rightarrow> string \<Rightarrow> pyval" where
  "setting_value lib found name = get_node_value lib (map_option fst (found name))"

definition setting_line :: "'n found \<Rightarrow> string \<Rightarrow> int option" where
  "setting_line found name = map_option snd (found name)"

subsection \<open>The checks\<close>

definition backslash :: char where
  "backslash = CHR 0x5C"

definition robots_pattern :: string where
  "robots_pattern = ''^'' @ [backslash] @ ''s*ROBOTSTXT_OBEY'' @ [backslash] @ ''s*=''"

definition default_ua_pattern :: "string \<Rightarrow> string" where
  "default_ua_pattern project_name =
     ''^'' @ [backslash] @ ''s*#?'' @ [backslash] @ ''s*USER_AGENT'' @ [backslash] @ ''s*=''
       @ [backslash] @ ''s*['' @ [backslash, CHR 0x27, CHR 0x22] @ '']'' @ project_name"

definition custom_ua_pattern :: string where
  "custom_ua_pattern =
     ''^'' @ [backslash] @ ''s*USER_AGENT'' @ [backslash] @ ''s*='' @ [backslash] @ ''s*[^#]''"

text \<open>
  Every block of step 3 only appends entries to the three lists of \<open>results\<close>. A block
  is modelled by the entries it appends, and \<open>append_results\<close> appends them.
\<close>

definition no_entries :: results where
  "no_entries = \<lparr>warnings = [], recommendations = [], info = []\<rparr>"

definition warn :: "entry \<Rightarrow> results" where
  "warn e = \<lparr>warnings = [e], recommendations = [], info = []\<rparr>"

definition recommend :: "entry \<Rightarrow> results" where
  "recommend e = \<lparr>warnings = [], recommendations = [e], info = []\<rparr>"

definition inform :: "entry \<Rightarrow> results" where
  "inform e = \<lparr>warnings = [], recommendations = [], info = [e]\<rparr>"

definition append_results :: "results \<Rightarrow> results \<Rightarrow> results" where
  "append_results r d =
     \<lparr>warnings = warnings r @ warnings d,
      recommendations = recommendations r @ recommendations d,
      info = info r @ info d\<rparr>"

text \<open>Lines 302 to 316.\<close>

definition robots_check :: "'n pyast \<Rightarrow> string \<Rightarrow> string \<Rightarrow> 'n found \<Rightarrow> results" where
  "robots_check lib path content found =
     (case found ''ROBOTSTXT_OBEY'' of
        Some (node, lno) \<Rightarrow>
          if get_node_value lib (Some node) = PBool False
          then warn (robots_warning path lno)
          else inform (robots_set_info path lno)
      | None \<Rightarrow>
          if \<not> re_search lib robots_pattern content
          then inform (robots_unset_info path)
          else no_entries)"

text \<open>Lines 318 to 339.\<close>

definition is_default_ua :: "string \<Rightarrow> pyval \<Rightarrow> bool" where
  "is_default_ua project_name v = (case v of PStr s \<Rightarrow> contains project_name s | _ \<Rightarrow> False)"

definition ua_check :: "'n pyast \<Rightarrow> string \<Rightarrow> string \<Rightarrow> string \<Rightarrow> 'n found \<Rightarrow> results" where
  "ua_check lib path project_name content found =
     (case found ''USER_AGENT'' of
        Some (node, lno) \<Rightarrow>
          if is_default_ua project_name (get_node_value lib (Some node))
          then recommend (default_ua_rec path lno)
          else inform (custom_ua_info path lno)
      | None \<Rightarrow>
          if re_search lib (default_ua_pattern project_name) content
          then recommend (missing_ua_rec path)
          else if \<not> re_search lib custom_ua_pattern content
          then recommend (missing_ua_rec path)
          else no_entries)"

text \<open>
  The number a value stands for when it is compared with a number; \<open>None\<close> is the
  \<open>TypeError\<close> of comparing \<open>None\<close>, a string or another literal with a number.
\<close>

definition py_num :: "pyval \<Rightarrow> real option" where
  "py_num v =
     (case v of
        PBool b \<Rightarrow> Some (if b then 1 else 0)
      | PInt n \<Rightarrow> Some (real_of_int n)
      | PFloat x \<Rightarrow> Some x
      | _ \<Rightarrow> None)"

datatype advisor_error = TypeError

definition autothrottle_enabled :: "'n pyast \<Rightarrow> 'n found \<Rightarrow> bool" where
  "autothrottle_enabled lib found =
     (case found ''AUTOTHROTTLE_ENABLED'' of
        None \<Rightarrow> False
      | Some (node, lno) \<Rightarrow> get_node_value lib (Some node) = PBool True)"

definition delay_value :: "'n pyast \<Rightarrow> 'n found \<Rightarrow> pyval" where
  "delay_value lib found =
     (if found ''DOWNLOAD_DELAY'' = None then PInt 0
      else setting_value lib found ''DOWNLOAD_DELAY'')"

definition conc_domain_value :: "'n pyast \<Rightarrow> 'n found \<Rightarrow> pyval" where
  "conc_domain_value lib found =
     (if found ''CONCURRENT_REQUESTS_PER_DOMAIN'' = None then PInt 16
      else setting_value lib found ''CONCURRENT_REQUESTS_PER_DOMAIN'')"

definition conc_ip_value :: "'n pyast \<Rightarrow> 'n found \<Rightarrow> pyval" where
  "conc_ip_value lib found =
     (if found ''CONCURRENT_REQUESTS_PER_IP'' = None then PInt 16
      else setting_value lib found ''CONCURRENT_REQUESTS_PER_IP'')"

text \<open>Line 355: \<open>delay_value is None or delay_value < 0.5\<close>.\<close>

definition delay_is_low :: "pyval \<Rightarrow> bool option" where
  "delay_is_low v = (if v = PNone then Some True else map_option (\<lambda>x. x < 1 / 2) (py_num v))"

text \<open>Line 361: \<open>conc_domain_value > 8 or conc_ip_value > 8\<close>.\<close>

definition concurrency_is_high :: "pyval \<Rightarrow> pyval \<Rightarrow> bool option" where
  "concurrency_is_high d i =
     (case py_num d of
        None \<Rightarrow> None
      | Some x \<Rightarrow> if 8 < x then Some True else map_option (\<lambda>y. 8 < y) (py_num i))"

definition conc_line :: "'n found \<Rightarrow> int option" where
  "conc_line found =
     (if found ''CONCURRENT_REQUESTS_PER_DOMAIN'' = None
      then setting_line found ''CONCURRENT_REQUESTS_PER_IP''
      else setting_line found ''CONCURRENT_REQUESTS_PER_DOMAIN'')"

text \<open>Lines 341 to 368; the comparisons may raise.\<close>

definition throttle_check :: "'n pyast \<Rightarrow> string \<Rightarrow> 'n found \<Rightarrow> advisor_error + results" where
  "throttle_check lib path found =
     (if \<not> autothrottle_enabled lib found then
        (case delay_is_low (delay_value lib found) of
           None \<Rightarrow> Inl TypeError
         | Some low \<Rightarrow>
             (case concurrency_is_high (conc_domain_value lib found) (conc_ip_value lib found) of
                None \<Rightarrow> Inl TypeError
              | Some high \<Rightarrow>
                  Inr (append_results
                         (if low
                          then recommend (low_delay_rec path (setting_line found ''DOWNLOAD_DELAY'')
                                            (delay_value lib found))
                          else no_entries)
                         (if high
                          then recommend (high_concurrency_rec path (conc_line found)
                                            (conc_domain_value lib found) (conc_ip_value lib found))
                          else no_entries))))
      else Inr (inform (autothrottle_info path (setting_line found ''AUTOTHROTTLE_ENABLED''))))"

text \<open>Lines 370 to 380.\<close>

definition cache_check :: "'n pyast \<Rightarrow> string \<Rightarrow> 'n found \<Rightarrow> results" where
  "cache_check lib path found =
     (case found ''HTTPCACHE_ENABLED'' of
        None \<Rightarrow> recommend (cache_disabled_rec path None)
      | Some (node, lno) \<Rightarrow>
          if get_node_value lib (Some node) = PBool False
          then recommend (cache_disabled_rec path (Some lno))
          else inform (cache_enabled_info path lno))"

text \<open>Lines 382 to 389: the substring checks on the raw text.\<close>

definition extension_checks :: "string \<Rightarrow> string \<Rightarrow> results" where
  "extension_checks path content =
     \<lparr>warnings = [], recommendations = [],
      info = (if contains ''scrapy_playwright'' content then [playwright_info path] else [])
           @ (if contains ''scrapy_splash'' content then [splash_info path] else [])
           @ (if contains ''scrapy_redis'' content then [redis_info path] else [])\<rparr>"

text \<open>Step 3 of \<open>_analyze_settings\<close>, from line 299 on, started with the results \<open>r\<close>.\<close>

definition run_checks ::
  "'n pyast \<Rightarrow> string \<Rightarrow> string \<Rightarrow> string \<Rightarrow> 'n found \<Rightarrow> results \<Rightarrow> advisor_error + results" where
  "run_checks lib path project_name content found r =
     (case throttle_check lib path found of
        Inl e \<Rightarrow> Inl e
      | Inr throttle \<Rightarrow>
          Inr (append_results
                 (append_results
                    (append_results
                       (append_results
                          (append_results r (robots_check lib path content found))
                          (ua_check lib path project_name content found))
                       throttle)
                    (cache_check lib path found))
                 (extension_checks path content)))"

definition analyze_settings ::
  "'n pyast \<Rightarrow> string \<Rightarrow> string \<Rightarrow> 'n source \<Rightarrow> advisor_error + results" where
  "analyze_settings lib path project_name src =
     (case src of
        Unreadable e \<Rightarrow>
          Inr \<lparr>warnings = [unreadable_warning path e], recommendations = [], info = []\<rparr>
      | SyntaxError lno msg txt content \<Rightarrow>
          run_checks lib path project_name content Map.empty
            \<lparr>warnings = [syntax_warning path lno msg txt], recommendations = [], info = []\<rparr>
      | Parsed content nodes \<Rightarrow>
          run_checks lib path project_name content (settings_found nodes Map.empty)
            \<lparr>warnings = [], recommendations = [], info = [syntax_passed_info path]\<rparr>)"

subsection \<open>Sample sources\<close>

text \<open>
  In the samples a value node is the text of the expression. \<open>sample_ast\<close> evaluates
  \<open>True\<close>, \<open>False\<close>, \<open>None\<close> and the decimal literals of the natural numbers and
  refuses everything else; its search finds nothing, as \<open>re.search\<close> does on the
  sample sources wherever the advisor searches them.
\<close>

definition sample_ast :: "string pyast" where
  "sample_ast =
     \<lparr>literal_eval =
        (\<lambda>s. if s = ''True'' then Some (PBool True)
             else if s = ''False'' then Some (PBool False)
             else if s = ''None'' then Some PNone
             else map_option PInt (decimal s)),
      re_search = (\<lambda>pattern content. False)\<rparr>"

definition assignment :: "string \<Rightarrow> string \<Rightarrow> int \<Rightarrow> string assign" where
  "assignment name expr lno = \<lparr>targets = [Name name], value_node = expr, lineno = lno\<rparr>"

text \<open>The text of a file from its lines.\<close>

definition text_of :: "string list \<Rightarrow> string" where
  "text_of ls = concat (map (\<lambda>l. l @ [CHR 0x0A]) ls)"

text \<open>\<open>ROBOTSTXT_OBEY = False\<close> on line 2.\<close>

definition robots_off :: "string source" where
  "robots_off =
     Parsed (text_of [''CONCURRENT_REQUESTS = 8'', ''ROBOTSTXT_OBEY = False'', ''DOWNLOAD_DELAY = 2''])
       [assignment ''CONCURRENT_REQUESTS'' ''8'' 1, assignment ''ROBOTSTXT_OBEY'' ''False'' 2,
        assignment ''DOWNLOAD_DELAY'' ''2'' 3]"

text \<open>\<open>ROBOTSTXT_OBEY = False\<close> on line 1 and \<open>ROBOTSTXT_OBEY = True\<close> on line 2.\<close>

definition robots_off_then_on :: "string source" where
  "robots_off_then_on =
     Parsed (text_of [''ROBOTSTXT_OBEY = False'', ''ROBOTSTXT_OBEY = True''])
       [assignment ''ROBOTSTXT_OBEY'' ''False'' 1, assignment ''ROBOTSTXT_OBEY'' ''True'' 2]"

text \<open>One line that ends in an operator; it names the Playwright download handler.\<close>

definition broken_source :: "string source" where
  "broken_source =
     SyntaxError (Some 1) ''invalid syntax''
       (Some (text_of [''DOWNLOAD_HANDLERS = scrapy_playwright.handler +'']))
       (text_of [''DOWNLOAD_HANDLERS = scrapy_playwright.handler +''])"

text \<open>Settings computed at run time: none of the values is a literal.\<close>

definition computed_source :: "string source" where
  "computed_source =
     Parsed (text_of [''ROBOTSTXT_OBEY = env.bool(1)'', ''USER_AGENT = make_agent()'',
                      ''DOWNLOAD_DELAY = float(env.delay)'', ''HTTPCACHE_ENABLED = env.bool(2)'',
                      ''AUTOTHROTTLE_ENABLED = env.bool(3)''])
       [assignment ''ROBOTSTXT_OBEY'' ''env.bool(1)'' 1,
        assignment ''USER_AGENT'' ''make_agent()'' 2,
        assignment ''DOWNLOAD_DELAY'' ''float(env.delay)'' 3,
        assignment ''HTTPCACHE_ENABLED'' ''env.bool(2)'' 4,
        assignment ''AUTOTHROTTLE_ENABLED'' ''env.bool(3)'' 5]"

section \<open>Properties of the proxy rotation middleware\<close>

lemmas proxy_eval =
  rotator_def outside_def url_rotator_def get_proxy_def refresh_proxies_if_needed_def
  refresh_due_def clear_expired_failures_def available_proxies_def choose_proxy_def
  sequential_walk_def advance_index_def index_of_def random_choice_def truthy_def
  load_proxies_def read_source_def Let_def keep_line_def

subsection \<open>What a call leaves unchanged\<close>

lemma load_failed: "failed_proxies (fst (load_proxies w m)) = failed_proxies m"
  by (auto simp: load_proxies_def read_source_def Let_def
      split: prod.splits sum.splits load_exception.splits fetch_outcome.splits
        file_outcome.splits if_splits)

lemma load_fail_timeout: "fail_timeout (fst (load_proxies w m)) = fail_timeout m"
  by (auto simp: load_proxies_def read_source_def Let_def
      split: prod.splits sum.splits load_exception.splits fetch_outcome.splits
        file_outcome.splits if_splits)

lemma refresh_failed: "failed_proxies (refresh_proxies_if_needed w m) = failed_proxies m"
  by (simp add: refresh_proxies_if_needed_def load_failed)

lemma refresh_fail_timeout: "fail_timeout (refresh_proxies_if_needed w m) = fail_timeout m"
  by (simp add: refresh_proxies_if_needed_def load_fail_timeout)

lemma choose_proxy_frame:
  "snd (choose_proxy w available m)
     = m\<lparr>proxy_index := proxy_index (snd (choose_proxy w available m))\<rparr>"
  by (simp add: choose_proxy_def Let_def advance_index_def split: option.splits)

lemma choose_proxy_failed: "failed_proxies (snd (choose_proxy w available m)) = failed_proxies m"
  by (subst choose_proxy_frame) simp

lemma choose_proxy_proxies: "proxies (snd (choose_proxy w available m)) = proxies m"
  by (subst choose_proxy_frame) simp

subsection \<open>The sequential walk\<close>

text \<open>The candidates of the walk are the pool rotated to the starting index.\<close>

lemma candidates_rotate:
  assumes "xs \<noteq> []"
  shows "map (\<lambda>i. xs ! ((s + i) mod length xs)) [0..<length xs] = rotate s xs"
  using assms by (intro nth_equalityI) (simp_all add: nth_rotate)

lemma sequential_walk_some:
  assumes "p \<in> set (proxies m)" "failed_proxies m p = None"
  shows "\<exists>c. sequential_walk m = Some c \<and> c \<in> set (proxies m) \<and> failed_proxies m c = None"
proof -
  let ?cands = "rotate (proxy_index m mod length (proxies m)) (proxies m)"
  from assms have ne: "proxies m \<noteq> []" by auto
  have "List.find (\<lambda>c. failed_proxies m c = None) ?cands \<noteq> None"
    using assms by (auto simp: find_None_iff)
  then obtain c where c: "List.find (\<lambda>c. failed_proxies m c = None) ?cands = Some c"
    by auto
  then have "c \<in> set ?cands \<and> failed_proxies m c = None"
    unfolding find_Some_iff by (metis nth_mem)
  then have "c \<in> set (proxies m) \<and> failed_proxies m c = None" by simp
  with c show ?thesis
    by (simp add: sequential_walk_def Let_def candidates_rotate[OF ne])
qed

lemma random_choice_mem: "xs \<noteq> [] \<Longrightarrow> random_choice w xs \<in> set xs"
  by (simp add: random_choice_def)

lemma choose_proxy_ok:
  assumes "available \<noteq> []" "set available = set (available_proxies m)"
  shows "\<exists>p. fst (choose_proxy w available m) = Some p \<and> p \<in> set (proxies m)
           \<and> failed_proxies m p = None"
proof -
  have rc: "random_choice w available \<in> set (proxies m)
      \<and> failed_proxies m (random_choice w available) = None"
    using random_choice_mem[OF assms(1), of w] assms(2) by (auto simp: available_proxies_def)
  then obtain c where c: "sequential_walk m = Some c" "c \<in> set (proxies m)"
      "failed_proxies m c = None"
    using sequential_walk_some by blast
  show ?thesis
    using rc c assms(1) by (simp add: choose_proxy_def truthy_def Let_def)
qed

subsection \<open>Selection\<close>

lemma get_proxy_some:
  assumes "proxies m \<noteq> []" and "proxies (refresh_proxies_if_needed w m) \<noteq> []"
  shows "\<exists>p. fst (get_proxy w m) = Some p
           \<and> p \<in> set (proxies (refresh_proxies_if_needed w m))
           \<and> failed_proxies (snd (get_proxy w m)) p = None"
proof -
  define m1 where "m1 = refresh_proxies_if_needed w m"
  define m2 where "m2 = clear_expired_failures (clock_expiry w) m1"
  define m3 where "m3 = m2\<lparr>failed_proxies := Map.empty\<rparr>"
  have p2: "proxies m2 = proxies m1" by (simp add: m2_def clear_expired_failures_def)
  show ?thesis
  proof (cases "available_proxies m2 = []")
    case True
    have g: "get_proxy w m = choose_proxy w (proxies m3) m3"
      using assms True p2 by (simp add: get_proxy_def Let_def m1_def m2_def m3_def)
    have "set (proxies m3) = set (available_proxies m3)"
      by (simp add: m3_def available_proxies_def)
    moreover have "proxies m3 \<noteq> []" using assms p2 by (simp add: m3_def m1_def)
    ultimately obtain p where "fst (choose_proxy w (proxies m3) m3) = Some p"
        "p \<in> set (proxies m3)" "failed_proxies m3 p = None"
      using choose_proxy_ok by blast
    then show ?thesis using g p2 by (simp add: choose_proxy_failed m3_def m1_def)
  next
    case False
    have g: "get_proxy w m = choose_proxy w (available_proxies m2) m2"
      using assms False by (simp add: get_proxy_def Let_def m1_def m2_def)
    obtain p where "fst (choose_proxy w (available_proxies m2) m2) = Some p"
        "p \<in> set (proxies m2)" "failed_proxies m2 p = None"
      using choose_proxy_ok[OF False refl] by blast
    then show ?thesis using g p2 by (simp add: choose_proxy_failed m1_def)
  qed
qed

lemma get_proxy_failed_map:
  assumes "proxies m \<noteq> []"
  shows "failed_proxies (snd (get_proxy w m)) =
          (if available_proxies
                (clear_expired_failures (clock_expiry w) (refresh_proxies_if_needed w m)) = []
           then Map.empty
           else failed_proxies
                  (clear_expired_failures (clock_expiry w) (refresh_proxies_if_needed w m)))"
  using assms by (simp add: get_proxy_def Let_def choose_proxy_failed)

lemma get_proxy_pool:
  assumes "proxies m \<noteq> []"
  shows "proxies (snd (get_proxy w m)) = proxies (refresh_proxies_if_needed w m)"
  using assms by (simp add: get_proxy_def Let_def choose_proxy_proxies clear_expired_failures_def)

lemma get_proxy_none:
  assumes "proxies (refresh_proxies_if_needed w m) = []"
  shows "fst (get_proxy w m) = None"
  using assms by (simp add: get_proxy_def Let_def clear_expired_failures_def available_proxies_def)

lemma get_proxy_available:
  assumes "proxies m \<noteq> []"
    and "available_proxies
          (clear_expired_failures (clock_expiry w) (refresh_proxies_if_needed w m)) \<noteq> []"
  shows "\<exists>p. fst (get_proxy w m) = Some p
           \<and> p \<in> set (proxies (refresh_proxies_if_needed w m))
           \<and> failed_proxies
                (clear_expired_failures (clock_expiry w) (refresh_proxies_if_needed w m)) p = None"
proof -
  define m2 where "m2 = clear_expired_failures (clock_expiry w) (refresh_proxies_if_needed w m)"
  have p2: "proxies m2 = proxies (refresh_proxies_if_needed w m)"
    by (simp add: m2_def clear_expired_failures_def)
  from assms(2) have av: "available_proxies m2 \<noteq> []" by (simp add: m2_def)
  then have "proxies (refresh_proxies_if_needed w m) \<noteq> []"
    using p2 by (auto simp: available_proxies_def)
  then have g: "get_proxy w m = choose_proxy w (available_proxies m2) m2"
    using assms(1) av by (simp add: get_proxy_def Let_def m2_def)
  obtain p where "fst (choose_proxy w (available_proxies m2) m2) = Some p"
      "p \<in> set (proxies m2)" "failed_proxies m2 p = None"
    using choose_proxy_ok[OF av refl] by blast
  then show ?thesis using g p2 by (simp add: m2_def)
qed

lemma post_expiry_map:
  "failed_proxies (clear_expired_failures now (refresh_proxies_if_needed w m)) q = None
     \<longleftrightarrow> failed_proxies m q = None
        \<or> fail_timeout m \<noteq> 0
          \<and> (\<exists>t. failed_proxies m q = Some t \<and> real_of_int (fail_timeout m) < now - t)"
  by (auto simp: clear_expired_failures_def refresh_failed refresh_fail_timeout
      split: option.splits if_splits)

lemma unfailed_is_available:
  assumes "q \<in> set (proxies (refresh_proxies_if_needed w m))" "failed_proxies m q = None"
  shows "available_proxies
          (clear_expired_failures now (refresh_proxies_if_needed w m)) \<noteq> []"
proof -
  have "failed_proxies (clear_expired_failures now (refresh_proxies_if_needed w m)) q = None"
    using assms(2) by (simp add: post_expiry_map)
  moreover have "q \<in> set (proxies (clear_expired_failures now (refresh_proxies_if_needed w m)))"
    using assms(1) by (simp add: clear_expired_failures_def)
  ultimately show ?thesis
    by (auto simp: available_proxies_def filter_empty_conv)
qed

text \<open>
  Claim C1, as the code has it. A call on a non-empty pool first refreshes the pool (when
  the source is a remote list and the interval has elapsed) and then drops the failure
  entries older than the cooldown; an entry is out of the failure map after these two
  steps exactly when it was not in the map before the call or its cooldown has elapsed.
  If some entry of the refreshed pool is then out of the failure map, which is so whenever
  some entry of the refreshed pool was not marked failed before the call, the call returns
  such an entry and leaves the failure map as the expiry step left it. If the refreshed
  pool is non-empty and every entry of it is still in the failure map, the call returns a
  member of the pool and leaves an empty failure map. The pool the call leaves is the
  refreshed pool, and if the refresh left the pool empty the call returns \<open>None\<close>.
\<close>

theorem get_proxy_never_starves:
  assumes "proxies m \<noteq> []"
  shows "(let m1 = refresh_proxies_if_needed w m;
              m2 = clear_expired_failures (clock_expiry w) m1
          in (\<forall>q. failed_proxies m2 q = None
                    \<longleftrightarrow> failed_proxies m q = None
                       \<or> fail_timeout m \<noteq> 0
                         \<and> (\<exists>t. failed_proxies m q = Some t
                                \<and> real_of_int (fail_timeout m) < clock_expiry w - t))
           \<and> (\<forall>q. q \<in> set (proxies m1) \<and> failed_proxies m q = None
                    \<longrightarrow> available_proxies m2 \<noteq> [])
           \<and> (available_proxies m2 \<noteq> [] \<longrightarrow>
                 (\<exists>p. fst (get_proxy w m) = Some p \<and> p \<in> set (proxies m1)
                      \<and> failed_proxies m2 p = None)
                 \<and> failed_proxies (snd (get_proxy w m)) = failed_proxies m2)
           \<and> (proxies m1 \<noteq> [] \<and> available_proxies m2 = [] \<longrightarrow>
                 (\<exists>p. fst (get_proxy w m) = Some p \<and> p \<in> set (proxies m1))
                 \<and> failed_proxies (snd (get_proxy w m)) = Map.empty)
           \<and> proxies (snd (get_proxy w m)) = proxies m1
           \<and> (proxies m1 = [] \<longrightarrow> fst (get_proxy w m) = None))"
proof -
  define m1 where "m1 = refresh_proxies_if_needed w m"
  define m2 where "m2 = clear_expired_failures (clock_expiry w) m1"
  have a: "\<forall>q. failed_proxies m2 q = None
                    \<longleftrightarrow> failed_proxies m q = None
                       \<or> fail_timeout m \<noteq> 0
                         \<and> (\<exists>t. failed_proxies m q = Some t
                                \<and> real_of_int (fail_timeout m) < clock_expiry w - t)"
    unfolding m2_def m1_def by (intro allI post_expiry_map)
  have b: "\<forall>q. q \<in> set (proxies m1) \<and> failed_proxies m q = None
                    \<longrightarrow> available_proxies m2 \<noteq> []"
    unfolding m2_def m1_def using unfailed_is_available by blast
  have c: "(\<exists>p. fst (get_proxy w m) = Some p \<and> p \<in> set (proxies m1)
                      \<and> failed_proxies m2 p = None)
                 \<and> failed_proxies (snd (get_proxy w m)) = failed_proxies m2"
    if "available_proxies m2 \<noteq> []"
    using that get_proxy_available[OF assms, of w] get_proxy_failed_map[OF assms, of w]
    by (simp add: m2_def m1_def)
  have d: "(\<exists>p. fst (get_proxy w m) = Some p \<and> p \<in> set (proxies m1))
                 \<and> failed_proxies (snd (get_proxy w m)) = Map.empty"
    if "proxies m1 \<noteq> []" "available_proxies m2 = []"
    using that get_proxy_some[OF assms, of w] get_proxy_failed_map[OF assms, of w]
    by (auto simp: m2_def m1_def)
  have e: "proxies (snd (get_proxy w m)) = proxies m1"
    using get_proxy_pool[OF assms, of w] by (simp add: m1_def)
  have f: "fst (get_proxy w m) = None" if "proxies m1 = []"
    using that get_proxy_none[of w m] by (simp add: m1_def)
  from a b c d e f show ?thesis
    unfolding Let_def m1_def[symmetric] m2_def[symmetric] by blast
qed

theorem get_proxy_never_starves_witness:
  "proxies (rotator [''http://a:1'', ''http://b:2''] [''http://a:1'' \<mapsto> 390] 0 ''random'') \<noteq> []
   \<and> fst (get_proxy (outside 400 0)
            (rotator [''http://a:1'', ''http://b:2''] [''http://a:1'' \<mapsto> 390] 0 ''random''))
       = Some ''http://b:2''
   \<and> failed_proxies (snd (get_proxy (outside 400 0)
            (rotator [''http://a:1'', ''http://b:2''] [''http://a:1'' \<mapsto> 390] 0 ''random'')))
         ''http://b:2'' = None
   \<and> failed_proxies (snd (get_proxy (outside 400 0)
            (rotator [''http://a:1'', ''http://b:2''] [''http://a:1'' \<mapsto> 390] 0 ''random'')))
         ''http://a:1'' = Some 390
   \<and> fst (get_proxy (outside 400 0)
            (rotator [''http://a:1'', ''http://b:2'']
               [''http://a:1'' \<mapsto> 390, ''http://b:2'' \<mapsto> 395] 0 ''random''))
       = Some ''http://a:1''
   \<and> failed_proxies (snd (get_proxy (outside 400 0)
            (rotator [''http://a:1'', ''http://b:2'']
               [''http://a:1'' \<mapsto> 390, ''http://b:2'' \<mapsto> 395] 0 ''random'')))
       = Map.empty
   \<and> fst (get_proxy (outside 4000 0) (url_rotator [''http://a:1''])) = None"
  using get_proxy_never_starves
    [of "rotator [''http://a:1'', ''http://b:2''] [''http://a:1'' \<mapsto> 390] 0 ''random''"
        "outside 400 0"]
    get_proxy_never_starves
    [of "rotator [''http://a:1'', ''http://b:2'']
           [''http://a:1'' \<mapsto> 390, ''http://b:2'' \<mapsto> 395] 0 ''random''"
        "outside 400 0"]
    get_proxy_never_starves [of "url_rotator [''http://a:1'']" "outside 4000 0"]
  by (simp add: proxy_eval)

text \<open>
  Claim C1 as stated fails twice. First: a pool of one proxy that is not failed, a remote
  source whose interval has elapsed and whose list comes back empty; the refresh inside
  the call empties the pool and the call returns \<open>None\<close>. Second: a pool whose two
  entries are both in the failure map, one of them older than the cooldown; the call
  returns that one and the other entry stays in the failure map, which is not cleared.
\<close>

theorem get_proxy_counterexample:
  "proxies (url_rotator [''http://a:1'']) = [''http://a:1'']
   \<and> failed_proxies (url_rotator [''http://a:1'']) ''http://a:1'' = None
   \<and> fst (get_proxy (outside 4000 0) (url_rotator [''http://a:1''])) = None
   \<and> failed_proxies (rotator [''http://a:1'', ''http://b:2'']
         [''http://a:1'' \<mapsto> 0, ''http://b:2'' \<mapsto> 350] 0 ''random'') ''http://a:1'' = Some 0
   \<and> failed_proxies (rotator [''http://a:1'', ''http://b:2'']
         [''http://a:1'' \<mapsto> 0, ''http://b:2'' \<mapsto> 350] 0 ''random'') ''http://b:2'' = Some 350
   \<and> fst (get_proxy (outside 400 0) (rotator [''http://a:1'', ''http://b:2'']
         [''http://a:1'' \<mapsto> 0, ''http://b:2'' \<mapsto> 350] 0 ''random'')) = Some ''http://a:1''
   \<and> failed_proxies (snd (get_proxy (outside 400 0) (rotator [''http://a:1'', ''http://b:2'']
         [''http://a:1'' \<mapsto> 0, ''http://b:2'' \<mapsto> 350] 0 ''random''))) ''http://b:2''
       = Some 350"
  by (simp add: proxy_eval)

subsection \<open>Sequential rotation\<close>

lemma index_of_nth:
  "distinct xs \<Longrightarrow> k < length xs \<Longrightarrow> index_of xs (xs ! k) = k"
proof (induction xs arbitrary: k)
  case Nil
  then show ?case by simp
next
  case (Cons x xs)
  show ?case
  proof (cases k)
    case 0
    then show ?thesis by (simp add: index_of_def)
  next
    case (Suc j)
    with Cons.prems have "xs ! j \<noteq> x" "j < length xs" "distinct xs" by auto
    with Cons.IH[of j] Suc show ?thesis by (simp add: index_of_def)
  qed
qed

lemma sequential_walk_first:
  assumes "proxies m \<noteq> []" "list_all (\<lambda>p. failed_proxies m p = None) (proxies m)"
  shows "sequential_walk m = Some (proxies m ! (proxy_index m mod length (proxies m)))"
proof -
  let ?n = "length (proxies m)"
  have n: "0 < ?n" using assms by simp
  then have u: "[0..<?n] = 0 # [1..<?n]" by (simp add: upt_conv_Cons)
  have "failed_proxies m (proxies m ! (proxy_index m mod ?n)) = None"
    using assms n by (simp add: list_all_length)
  then show ?thesis
    by (simp add: sequential_walk_def Let_def) (subst u, simp)
qed

lemma get_proxy_sequential_step:
  assumes "all_available m"
  shows "fst (get_proxy w m) = Some (proxies m ! (proxy_index m mod length (proxies m)))"
    and "proxy_index (snd (get_proxy w m)) = (proxy_index m + 1) mod length (proxies m)"
    and "proxies (snd (get_proxy w m)) = proxies m"
    and "all_available (snd (get_proxy w m))"
proof -
  let ?n = "length (proxies m)"
  let ?m2 = "clear_expired_failures (clock_expiry w) m"
  let ?c = "proxies m ! (proxy_index m mod ?n)"
  from assms have ne: "proxies m \<noteq> []" and md: "mode m = ''sequential''"
    and src: "proxy_source_type m \<noteq> ''url''" and d: "distinct (proxies m)"
    and nz: "[] \<notin> set (proxies m)"
    and av: "list_all (\<lambda>p. failed_proxies m p = None) (proxies m)"
    by (simp_all add: all_available_def)
  have r: "refresh_proxies_if_needed w m = m"
    using src by (simp add: refresh_proxies_if_needed_def)
  have p2: "proxies ?m2 = proxies m" "mode ?m2 = mode m" "proxy_index ?m2 = proxy_index m"
    "proxy_source_type ?m2 = proxy_source_type m"
    by (simp_all add: clear_expired_failures_def)
  have av2: "list_all (\<lambda>p. failed_proxies ?m2 p = None) (proxies m)"
    using av by (simp add: clear_expired_failures_def list_all_iff)
  then have a2: "available_proxies ?m2 = proxies m"
    by (simp add: available_proxies_def p2 list_all_iff)
  have n: "0 < ?n" using ne by simp
  then have lt: "proxy_index m mod ?n < ?n" by simp
  then have cin: "?c \<in> set (proxies m)" by simp
  with nz have cne: "?c \<noteq> []" by metis
  have sw: "sequential_walk ?m2 = Some ?c"
    using sequential_walk_first[of ?m2] ne av2 by (simp add: p2)
  have io: "index_of (proxies m) ?c = proxy_index m mod ?n"
    using index_of_nth[OF d lt] .
  have g: "get_proxy w m = (Some ?c, advance_index ?c ?m2)"
    using ne md cne by (simp add: get_proxy_def r Let_def a2 choose_proxy_def sw p2 truthy_def)
  show "fst (get_proxy w m) = Some ?c" by (simp add: g)
  show "proxy_index (snd (get_proxy w m)) = (proxy_index m + 1) mod ?n"
    by (simp add: g advance_index_def p2 io mod_Suc_eq)
  show "proxies (snd (get_proxy w m)) = proxies m" by (simp add: g advance_index_def p2)
  show "all_available (snd (get_proxy w m))"
    using ne md src d nz av2 by (simp add: g advance_index_def p2 all_available_def)
qed

lemma get_proxy_calls_sequential:
  assumes "all_available m"
  shows "fst (get_proxy_calls ws m)
           = map (\<lambda>i. Some (proxies m ! ((proxy_index m + i) mod length (proxies m))))
               [0..<length ws]"
  using assms
proof (induction ws arbitrary: m)
  case Nil
  then show ?case by simp
next
  case (Cons w ws)
  let ?m1 = "snd (get_proxy w m)"
  let ?n = "length (proxies m)"
  note st = get_proxy_sequential_step[OF Cons.prems, of w]
  have ih: "fst (get_proxy_calls ws ?m1)
      = map (\<lambda>i. Some (proxies m ! (((proxy_index m + 1) mod ?n + i) mod ?n))) [0..<length ws]"
    using Cons.IH[OF st(4)] by (simp add: st)
  have sh: "map (\<lambda>i. Some (proxies m ! (((proxy_index m + 1) mod ?n + i) mod ?n))) [0..<length ws]
      = map (\<lambda>i. Some (proxies m ! ((proxy_index m + i) mod ?n))) [1..<Suc (length ws)]"
  proof -
    have "[1..<Suc (length ws)] = map Suc [0..<length ws]"
      by (simp add: map_Suc_upt del: upt_Suc)
    then show ?thesis by (simp add: comp_def mod_simps del: upt_Suc)
  qed
  have e: "[0..<length (w # ws)] = 0 # [1..<Suc (length ws)]"
    by (simp add: upt_conv_Cons del: upt_Suc)
  have "fst (get_proxy_calls (w # ws) m) = fst (get_proxy w m) # fst (get_proxy_calls ws ?m1)"
    by (simp split: prod.splits)
  also have "\<dots> = Some (proxies m ! (proxy_index m mod ?n))
        # map (\<lambda>i. Some (proxies m ! ((proxy_index m + i) mod ?n))) [1..<Suc (length ws)]"
    by (simp only: ih sh st(1))
  also have "\<dots> = map (\<lambda>i. Some (proxies m ! ((proxy_index m + i) mod ?n))) [0..<length (w # ws)]"
    by (simp only: e list.map add_0_right)
  finally show ?case .
qed

text \<open>
  On a pool of pairwise different proxies, none failed, in sequential mode and without a
  remote refresh, as many calls as the pool has entries return the pool rotated to the
  current index: every entry once, in pool order, wrapping around.
\<close>

theorem sequential_round_robin:
  assumes "all_available m" and "length ws = length (proxies m)"
  shows "fst (get_proxy_calls ws m)
           = map Some (rotate (proxy_index m mod length (proxies m)) (proxies m))"
proof -
  from assms(1) have ne: "proxies m \<noteq> []" by (simp add: all_available_def)
  have "map (\<lambda>i. proxies m ! ((proxy_index m + i) mod length (proxies m)))
          [0..<length (proxies m)]
      = rotate (proxy_index m mod length (proxies m)) (proxies m)"
    using candidates_rotate[OF ne, of "proxy_index m mod length (proxies m)"]
    by (simp add: mod_simps)
  from this[symmetric]
  have "map Some (rotate (proxy_index m mod length (proxies m)) (proxies m))
      = map (\<lambda>i. Some (proxies m ! ((proxy_index m + i) mod length (proxies m))))
          [0..<length (proxies m)]"
    by (simp add: comp_def)
  then show ?thesis using get_proxy_calls_sequential[OF assms(1), of ws] assms(2) by simp
qed

theorem sequential_round_robin_witness:
  "fst (get_proxy_calls [outside 0 0, outside 1 0, outside 2 0]
         (rotator [''http://a:1'', ''http://b:2'', ''http://c:3''] Map.empty 1 ''sequential''))
     = [Some ''http://b:2'', Some ''http://c:3'', Some ''http://a:1'']"
proof -
  let ?m = "rotator [''http://a:1'', ''http://b:2'', ''http://c:3''] Map.empty 1 ''sequential''"
  have h1: "all_available ?m" by (simp add: all_available_def rotator_def)
  have h2: "length [outside 0 0, outside 1 0, outside 2 0] = length (proxies ?m)"
    by (simp add: rotator_def)
  have "rotate (proxy_index ?m mod length (proxies ?m)) (proxies ?m)
          = [''http://b:2'', ''http://c:3'', ''http://a:1'']"
    by (simp add: rotator_def)
  then show ?thesis using sequential_round_robin[OF h1 h2] by simp
qed

text \<open>
  Claim C2 at a pool that lists one proxy twice. \<open>list.index\<close> finds the first position
  of the selected proxy, so the index returns to 1 after either copy: three calls from
  index 0 return the first proxy three times, and the third entry is never reached. The
  claim asks for each of the three entries once, in pool order.
\<close>

theorem sequential_duplicates_starve:
  "fst (get_proxy_calls [outside 0 0, outside 1 0, outside 2 0]
         (rotator [''http://a:1'', ''http://a:1'', ''http://b:2''] Map.empty 0 ''sequential''))
     = [Some ''http://a:1'', Some ''http://a:1'', Some ''http://a:1'']"
  by (simp add: proxy_eval)

subsection \<open>Cooldown\<close>





subsection \<open>A failed fetch\<close>

text \<open>
  Claim C9: when the source type is \<open>url\<close> and the fetch raises a request exception,
  \<open>_load_proxies\<close> leaves the whole object, and so the pool, as it was, and the last
  event it logs is the error reporting the failed fetch.
\<close>

theorem load_proxies_fetch_failure_keeps_pool:
  assumes "proxy_source_type m = ''url''" "truthy (proxy_url_setting m)" "requests_available w"
    and "fetch w = FetchRequestException e"
  shows "load_proxies w m =
           (m, [FetchingProxies (str_opt (proxy_url_setting m)),
                FailedToFetch (str_opt (proxy_url_setting m)) e])
         \<and> proxies (fst (load_proxies w m)) = proxies m
         \<and> log_level_of (last (snd (load_proxies w m))) = Error"
  using assms by (simp add: load_proxies_def read_source_def)

theorem load_proxies_fetch_failure_witness:
  "load_proxies ((outside 4000 0)\<lparr>fetch := FetchRequestException ''timed out''\<rparr>)
       (url_rotator [''http://a:1''])
     = (url_rotator [''http://a:1''],
        [FetchingProxies ''http://lists.example/proxies.txt'',
         FailedToFetch ''http://lists.example/proxies.txt'' ''timed out''])"
proof -
  let ?w = "(outside 4000 0)\<lparr>fetch := FetchRequestException ''timed out''\<rparr>"
  let ?m = "url_rotator [''http://a:1'']"
  have h1: "proxy_source_type ?m = ''url''" by (simp add: url_rotator_def)
  have h2: "truthy (proxy_url_setting ?m)" by (simp add: url_rotator_def truthy_def)
  have h3: "requests_available ?w" by (simp add: outside_def)
  have h4: "fetch ?w = FetchRequestException ''timed out''" by simp
  have "str_opt (proxy_url_setting ?m) = ''http://lists.example/proxies.txt''"
    by (simp add: url_rotator_def str_opt_def)
  then show ?thesis using load_proxies_fetch_failure_keeps_pool[OF h1 h2 h3 h4] by simp
qed

subsection \<open>Responses\<close>

text \<open>
  Claim C10, as the code has it: \<open>process_response\<close> returns the response it was given
  and changes nothing of the object but the failure map. When the middleware is enabled
  and the request carries a non-empty assigned proxy, the map gains that proxy exactly
  when the status is a failure code. A disabled middleware, and a request without an
  assigned proxy, leave the object as it was.
\<close>

theorem process_response_frame:
  "fst (process_response now req resp m) = Inr resp
   \<and> snd (process_response now req resp m)
       = m\<lparr>failed_proxies := failed_proxies (snd (process_response now req resp m))\<rparr>
   \<and> (enabled m \<and> meta req ''_proxy_rotator_current'' = Some p \<and> p \<noteq> [] \<longrightarrow>
        failed_proxies (snd (process_response now req resp m))
          = (if status resp \<in> fail_codes m then (failed_proxies m)(p \<mapsto> now)
             else failed_proxies m))
   \<and> (\<not> enabled m \<longrightarrow> snd (process_response now req resp m) = m)
   \<and> (meta req ''_proxy_rotator_current'' = None \<longrightarrow>
        snd (process_response now req resp m) = m)"
  by (simp add: process_response_def mark_failed_def split: option.splits)

theorem process_response_frame_witness:
  "failed_proxies (snd (process_response 10 assigned
         \<lparr>status = 503, resp_url = ''http://site.example/page''\<rparr>
         (rotator [''http://a:1''] Map.empty 0 ''random''))) = [''http://a:1'' \<mapsto> 10]
   \<and> failed_proxies (snd (process_response 10 assigned
         \<lparr>status = 200, resp_url = ''http://site.example/page''\<rparr>
         (rotator [''http://a:1''] Map.empty 0 ''random''))) = Map.empty"
  using process_response_frame[of 10 assigned
      "\<lparr>status = 503, resp_url = ''http://site.example/page''\<rparr>"
      "rotator [''http://a:1''] Map.empty 0 ''random''" "''http://a:1''"]
    process_response_frame[of 10 assigned
      "\<lparr>status = 200, resp_url = ''http://site.example/page''\<rparr>"
      "rotator [''http://a:1''] Map.empty 0 ''random''" "''http://a:1''"]
  by (simp add: rotator_def assigned_def)

text \<open>
  Claim C10 as stated fails for a disabled middleware: the response status 503 is a
  failure code and the request carries an assigned proxy, yet the proxy is not added to
  the failure map.
\<close>

theorem process_response_counterexample:
  "status \<lparr>status = 503, resp_url = ''http://site.example/page''\<rparr>
     \<in> fail_codes ((rotator [''http://a:1''] Map.empty 0 ''random'')\<lparr>enabled := False\<rparr>)
   \<and> meta assigned ''_proxy_rotator_current'' = Some ''http://a:1''
   \<and> failed_proxies (snd (process_response 10 assigned
         \<lparr>status = 503, resp_url = ''http://site.example/page''\<rparr>
         ((rotator [''http://a:1''] Map.empty 0 ''random'')\<lparr>enabled := False\<rparr>)))
       ''http://a:1'' = None"
  by (simp add: rotator_def assigned_def process_response_def)

section \<open>Properties of the project file API\<close>

lemmas file_api_eval =
  list_or_get_file_def shop_projects_def shop_fs_def base_project_path_def path_parts_def
  lstrip_chars_def is_dir_def is_file_def exists_path_def within_base_def startswith_def
  path_str_def content_type_of_def suffix_of_def ascii_lower_def Let_def relative_to_def
  relative_str_def backslashes_to_slashes_def pure_path_str_def inside_base_def

text \<open>Inside the module directory the route lists directories and serves files.\<close>

lemma shop_listing:
  "list_or_get_file shop_projects shop_fs ''shop'' []
     = Listing ''.'' [(''settings.py'', ''file'', ''settings.py''), (''spiders'', ''dir'', ''spiders'')]"
  by (simp add: file_api_eval)

lemma shop_settings:
  "list_or_get_file shop_projects shop_fs ''shop'' ''settings.py''
     = Content ''BOT_NAME = 1'' ''text/x-python; charset=utf-8''"
  by (simp add: file_api_eval)

text \<open>A path that leaves the module directory for the outer directory is refused.\<close>

lemma shop_parent_refused:
  "list_or_get_file shop_projects shop_fs ''shop'' ''../scrapy.cfg'' = Abort 403"
  by (simp add: file_api_eval)

text \<open>
  Claim C4 at a directory next to the module directory whose name begins with the
  module's name. The base directory is \<open>/srv/shop/shop\<close>; the request
  \<open>../shop_private/secrets.txt\<close> resolves to \<open>/srv/shop/shop_private/secrets.txt\<close>,
  which is not inside the base directory. The test of line 104 compares the two paths as
  strings, \<open>/srv/shop/shop\<close> is a prefix of \<open>/srv/shop/shop_private/secrets.txt\<close>, and
  the route returns the file's text instead of 403.
\<close>

theorem served_outside_base:
  "base_project_path shop_fs [''srv'', ''shop''] ''shop'' = Some [''srv'', ''shop'', ''shop'']
   \<and> resolve_from [''srv'', ''shop'', ''shop''] (path_parts ''../shop_private/secrets.txt'')
       = [''srv'', ''shop'', ''shop_private'', ''secrets.txt'']
   \<and> \<not> inside_base [''srv'', ''shop'', ''shop'']
         [''srv'', ''shop'', ''shop_private'', ''secrets.txt'']
   \<and> list_or_get_file shop_projects shop_fs ''shop'' ''../shop_private/secrets.txt''
       = Content ''API_KEY=12345'' ''text/plain; charset=utf-8''"
  by (simp add: file_api_eval)

section \<open>Properties of the log analyzer\<close>

subsection \<open>The status-code counts stay empty\<close>

text \<open>What \<open>strip(cs)\<close> returns does not begin with a character of \<open>cs\<close>.\<close>

lemma strip_chars_Cons:
  assumes "strip_chars cs s = c # r"
  shows "c \<notin> set cs"
proof -
  let ?P = "\<lambda>c. c \<in> set cs"
  let ?t = "dropWhile ?P s"
  have "rev (dropWhile ?P (rev ?t)) @ rev (takeWhile ?P (rev ?t))
      = rev (takeWhile ?P (rev ?t) @ dropWhile ?P (rev ?t))"
    by (simp only: rev_append)
  also have "\<dots> = ?t" by (simp only: takeWhile_dropWhile_id rev_rev_ident)
  finally have "?t = strip_chars cs s @ rev (takeWhile ?P (rev ?t))"
    by (simp only: strip_chars_def)
  then have t: "?t = c # (r @ rev (takeWhile ?P (rev ?t)))"
    by (simp only: assms append_Cons)
  then show ?thesis unfolding dropWhile_eq_Cons_conv by (rule conjE)
qed

text \<open>
  The pattern for the status counts begins with a quote, and the key it is matched
  against has had its quotes stripped: the match always fails.
\<close>

lemma match_response_status_stripped:
  "match_response_status (strip_chars [quote] k) = None"
proof (cases "strip_chars [quote] k")
  case Nil
  then show ?thesis by (simp add: match_response_status_def strip_prefix_def)
next
  case (Cons c r)
  then have "c \<noteq> quote" using strip_chars_Cons by fastforce
  with Cons show ?thesis by (simp add: match_response_status_def strip_prefix_def)
qed

lemma parse_stat_key:
  assumes "parse_stat lib ln0 = Some (key, v)"
  shows "match_response_status key = None"
proof -
  from assms obtain k where "key = strip_chars [quote] k"
    by (auto simp: parse_stat_def Let_def split: list.splits)
  then show ?thesis by (simp add: match_response_status_stripped)
qed

lemma stats_line_codes:
  assumes "stats_line lib ln0 a = Inr a'"
  shows "status_codes a' = status_codes a"
  using assms parse_stat_key[of lib ln0]
  by (auto simp: stats_line_def Let_def split: option.splits prod.splits)

lemma first_stats_line_codes: "status_codes (first_stats_line lib ln0 a) = status_codes a"
  by (simp add: first_stats_line_def split: option.splits prod.splits)

lemma process_line_codes:
  assumes "process_line lib a l = Inr a'"
  shows "status_codes a' = status_codes a"
  using assms
  by (auto simp: process_line_def Let_def first_stats_line_codes
      split: option.splits sum.splits if_splits dest!: stats_line_codes)

lemma process_lines_codes:
  assumes "process_lines lib a ls = Inr a'"
  shows "status_codes a' = status_codes a"
  using assms
proof (induction ls arbitrary: a)
  case Nil
  then show ?case by simp
next
  case (Cons l ls)
  then show ?case by (auto split: sum.splits dest: process_line_codes)
qed

lemma compute_summary_no_codes:
  assumes "compute_summary a = Inr s" "status_codes a = []"
  shows "http_success_rate s = 0"
  using assms
  by (auto simp: compute_summary_def Let_def success_codes_def
      split: option.splits prod.splits if_splits)

text \<open>
  Whatever the log holds and whatever the library functions return, an analysis that
  returns has no status-code counts and reports a success rate of 0.
\<close>

theorem success_rate_always_zero:
  assumes "analyze_log_file lib f = Inr (a, s)"
  shows "status_codes a = [] \<and> http_success_rate s = 0"
proof -
  from assms obtain ls where f: "f = LogLines ls"
    by (cases f) (simp_all add: analyze_log_file_def)
  with assms have p: "process_lines lib empty_analysis ls = Inr a"
    and c: "compute_summary a = Inr s"
    by (auto simp: analyze_log_file_def split: sum.splits)
  from process_lines_codes[OF p] have "status_codes a = []" by (simp add: empty_analysis_def)
  with compute_summary_no_codes[OF c] show ?thesis by simp
qed

subsection \<open>The formulas of the summary\<close>

text \<open>
  The success rate is the sum of the 2xx counts over the response count, times 100, and
  0 when there is no response; the two rates per second are 0 when no time has elapsed.
\<close>

lemma compute_summary_rates:
  assumes "compute_summary a = Inr s"
  shows "\<exists>el n. num_of (elapsed_seconds s) = Some el \<and> num_of (total_responses s) = Some n
          \<and> http_success_rate s
              = (if 0 < n then real_of_int (success_codes (status_codes a)) / n * 100 else 0)
          \<and> (n = 0 \<longrightarrow> http_success_rate s = 0)
          \<and> (el = 0 \<longrightarrow> avg_req_per_sec s = 0 \<and> avg_item_per_sec s = 0)"
  using assms
  by (auto simp: compute_summary_def Let_def split: option.splits prod.splits if_splits)

subsection \<open>The sample log\<close>

lemmas log_eval =
  analyze_log_file_def stats_dump_def decimal_lib_def decimal_def process_line_def
  match_level_def strip_def is_space_def is_digit_def quote_def stats_line_def
  first_stats_line_def parse_stat_def strip_chars_def match_response_status_def
  strip_prefix_def empty_analysis_def compute_summary_def stat_or_def num_of_def
  success_codes_def Let_def py_int_def add_count_def startswith_def traceback_message_def

text \<open>
  Claim C5 at a log whose statistics dump holds
  \<open>'downloader/response_status_count/200': 80\<close> and
  \<open>'downloader/response_count': 100\<close>. Both values are parsed into the raw
  statistics, the status-code counts stay empty, and the success rate is 0, where the
  claim says 80.
\<close>

theorem success_rate_sample:
  "(case analyze_log_file decimal_lib (LogLines stats_dump) of
      Inl e \<Rightarrow> False
    | Inr (a, s) \<Rightarrow>
        map_of (raw_stats a) ''downloader/response_status_count/200'' = Some (JInt 80)
        \<and> total_responses s = JInt 100
        \<and> status_codes a = []
        \<and> http_success_rate s = 0)"
  by (simp add: log_eval)

section \<open>Properties of the settings advisor\<close>

lemmas deltas = append_results_def warn_def recommend_def inform_def no_entries_def

lemmas entries =
  syntax_warning_def unreadable_warning_def syntax_passed_info_def robots_warning_def
  robots_set_info_def robots_unset_info_def default_ua_rec_def custom_ua_info_def
  missing_ua_rec_def low_delay_rec_def high_concurrency_rec_def autothrottle_info_def
  cache_disabled_rec_def cache_enabled_info_def playwright_info_def splash_info_def
  redis_info_def

lemmas advisor_eval =
  analyze_settings_def run_checks_def robots_check_def ua_check_def throttle_check_def
  cache_check_def extension_checks_def append_results_def warn_def recommend_def inform_def
  no_entries_def get_node_value_def setting_value_def setting_line_def autothrottle_enabled_def
  delay_value_def conc_domain_value_def conc_ip_value_def delay_is_low_def
  concurrency_is_high_def conc_line_def py_num_def is_default_ua_def sample_ast_def
  assignment_def decimal_def is_digit_def text_of_def

subsection \<open>What the checks append\<close>

lemma warnings_append: "warnings (append_results r d) = warnings r @ warnings d"
  by (simp add: append_results_def)

lemma recommendations_append:
  "recommendations (append_results r d) = recommendations r @ recommendations d"
  by (simp add: append_results_def)

lemma info_append: "info (append_results r d) = info r @ info d"
  by (simp add: append_results_def)

lemma ua_check_warnings: "warnings (ua_check lib path pn content found) = []"
  by (simp add: ua_check_def deltas split: option.splits prod.splits)

lemma cache_check_warnings: "warnings (cache_check lib path found) = []"
  by (simp add: cache_check_def deltas split: option.splits prod.splits)

lemma extension_checks_warnings: "warnings (extension_checks path content) = []"
  by (simp add: extension_checks_def)

lemma throttle_check_warnings:
  assumes "throttle_check lib path found = Inr t"
  shows "warnings t = []"
  using assms by (auto simp: throttle_check_def deltas split: option.splits if_splits)

lemma robots_check_recommendations: "recommendations (robots_check lib path content found) = []"
  by (simp add: robots_check_def deltas split: option.splits prod.splits)

text \<open>Only the check of \<open>ROBOTSTXT_OBEY\<close> adds warnings.\<close>

lemma run_checks_warnings:
  assumes "run_checks lib path pn content found r0 = Inr r"
  shows "warnings r = warnings r0 @ warnings (robots_check lib path content found)"
proof -
  from assms obtain t where t: "throttle_check lib path found = Inr t"
    and r: "r = append_results (append_results (append_results (append_results
          (append_results r0 (robots_check lib path content found))
          (ua_check lib path pn content found)) t) (cache_check lib path found))
          (extension_checks path content)"
    by (auto simp: run_checks_def split: sum.splits)
  show ?thesis
    by (simp add: r warnings_append ua_check_warnings cache_check_warnings
        extension_checks_warnings throttle_check_warnings[OF t])
qed

lemma run_checks_parts:
  assumes "run_checks lib path pn content found r0 = Inr r"
  obtains t where "throttle_check lib path found = Inr t"
    and "recommendations r = recommendations r0
          @ recommendations (robots_check lib path content found)
          @ recommendations (ua_check lib path pn content found)
          @ recommendations t
          @ recommendations (cache_check lib path found)"
    and "info r = info r0
          @ info (robots_check lib path content found)
          @ info (ua_check lib path pn content found)
          @ info t
          @ info (cache_check lib path found)
          @ info (extension_checks path content)"
proof -
  from assms obtain t where t: "throttle_check lib path found = Inr t"
    and r: "r = append_results (append_results (append_results (append_results
          (append_results r0 (robots_check lib path content found))
          (ua_check lib path pn content found)) t) (cache_check lib path found))
          (extension_checks path content)"
    by (auto simp: run_checks_def split: sum.splits)
  have "recommendations (extension_checks path content) = []"
    by (simp add: extension_checks_def)
  then show ?thesis
    using that[OF t] by (simp add: r recommendations_append info_append)
qed

text \<open>The checks return unless a comparison of the throttle check raises.\<close>

lemma run_checks_returns:
  assumes "autothrottle_enabled lib found
      \<or> delay_is_low (delay_value lib found) \<noteq> None
        \<and> concurrency_is_high (conc_domain_value lib found) (conc_ip_value lib found) \<noteq> None"
  shows "\<exists>r. run_checks lib path pn content found r0 = Inr r"
proof -
  from assms have "\<exists>t. throttle_check lib path found = Inr t"
    by (auto simp: throttle_check_def)
  then show ?thesis by (auto simp: run_checks_def)
qed

subsection \<open>\<open>ROBOTSTXT_OBEY = False\<close>\<close>

text \<open>
  Claim C6, as the code has it. In a source that parses, let the assignment to
  \<open>ROBOTSTXT_OBEY\<close> that the walk visits last have the literal value \<open>False\<close>. Then
  every result the analysis returns has exactly one warning, which carries the line of
  that assignment; and the analysis does return a result when AutoThrottle is enabled or
  the two comparisons of the throttle check are between numbers.
\<close>

theorem robots_false_one_warning:
  assumes "settings_found nodes Map.empty ''ROBOTSTXT_OBEY'' = Some (node, lno)"
    and "literal_eval lib node = Some (PBool False)"
  shows "(\<forall>r. analyze_settings lib path pn (Parsed content nodes) = Inr r
            \<longrightarrow> warnings r = [robots_warning path lno])
       \<and> (autothrottle_enabled lib (settings_found nodes Map.empty)
            \<or> delay_is_low (delay_value lib (settings_found nodes Map.empty)) \<noteq> None
              \<and> concurrency_is_high (conc_domain_value lib (settings_found nodes Map.empty))
                    (conc_ip_value lib (settings_found nodes Map.empty)) \<noteq> None
          \<longrightarrow> (\<exists>r. analyze_settings lib path pn (Parsed content nodes) = Inr r))"
proof -
  have w: "warnings (robots_check lib path content (settings_found nodes Map.empty))
      = [robots_warning path lno]"
    using assms by (simp add: robots_check_def get_node_value_def warn_def)
  show ?thesis
    using run_checks_warnings[of lib path pn content "settings_found nodes Map.empty"] w
      run_checks_returns[of lib "settings_found nodes Map.empty" path pn content]
    by (simp add: analyze_settings_def)
qed

theorem robots_false_one_warning_witness:
  "map_sum id warnings (analyze_settings sample_ast ''settings.py'' ''shop'' robots_off)
     = Inr [robots_warning ''settings.py'' 2]"
proof -
  let ?nodes = "[assignment ''CONCURRENT_REQUESTS'' ''8'' 1,
        assignment ''ROBOTSTXT_OBEY'' ''False'' 2, assignment ''DOWNLOAD_DELAY'' ''2'' 3]"
  let ?content = "text_of [''CONCURRENT_REQUESTS = 8'', ''ROBOTSTXT_OBEY = False'',
        ''DOWNLOAD_DELAY = 2'']"
  have h1: "settings_found ?nodes Map.empty ''ROBOTSTXT_OBEY'' = Some (''False'', 2)"
    by (simp add: assignment_def)
  have h2: "literal_eval sample_ast ''False'' = Some (PBool False)"
    by (simp add: sample_ast_def)
  have h3: "autothrottle_enabled sample_ast (settings_found ?nodes Map.empty)
      \<or> delay_is_low (delay_value sample_ast (settings_found ?nodes Map.empty)) \<noteq> None
        \<and> concurrency_is_high (conc_domain_value sample_ast (settings_found ?nodes Map.empty))
              (conc_ip_value sample_ast (settings_found ?nodes Map.empty)) \<noteq> None"
    by (simp add: advisor_eval)
  from robots_false_one_warning[OF h1 h2, of "''settings.py''" "''shop''" ?content] h3
  obtain r where
    "analyze_settings sample_ast ''settings.py'' ''shop'' (Parsed ?content ?nodes) = Inr r"
    and "warnings r = [robots_warning ''settings.py'' 2]"
    by blast
  then show ?thesis by (simp add: robots_off_def)
qed

text \<open>
  Claim C6 as stated fails for a source that assigns \<open>ROBOTSTXT_OBEY = False\<close> on line
  1 and \<open>ROBOTSTXT_OBEY = True\<close> on line 2: the later assignment replaces the earlier
  one in \<open>settings_found\<close> and the result has no warning.
\<close>

theorem robots_false_counterexample:
  "map_sum id warnings (analyze_settings sample_ast ''settings.py'' ''shop'' robots_off_then_on)
     = Inr []"
  by (simp add: advisor_eval robots_off_then_on_def)

subsection \<open>A source that does not parse\<close>

lemma throttle_check_unset:
  "throttle_check lib path Map.empty
     = Inr (append_results
              (recommend (low_delay_rec path None (PInt 0)))
              (recommend (high_concurrency_rec path None (PInt 16) (PInt 16))))"
  by (simp add: throttle_check_def autothrottle_enabled_def delay_value_def conc_domain_value_def
      conc_ip_value_def delay_is_low_def concurrency_is_high_def py_num_def setting_line_def
      conc_line_def)

lemma run_checks_unset:
  "run_checks lib path pn content Map.empty r0
     = Inr (append_results (append_results (append_results (append_results
          (append_results r0 (robots_check lib path content Map.empty))
          (ua_check lib path pn content Map.empty))
          (append_results
              (recommend (low_delay_rec path None (PInt 0)))
              (recommend (high_concurrency_rec path None (PInt 16) (PInt 16)))))
          (cache_check lib path Map.empty))
          (extension_checks path content))"
  by (simp add: run_checks_def throttle_check_unset)

lemma robots_check_unset_info:
  "set (info (robots_check lib path content Map.empty)) \<subseteq> {robots_unset_info path}"
  by (simp add: robots_check_def deltas)

lemma ua_check_unset_info: "info (ua_check lib path pn content Map.empty) = []"
  by (simp add: ua_check_def deltas)

lemma cache_check_unset_info: "info (cache_check lib path Map.empty) = []"
  by (simp add: cache_check_def deltas)

lemma extension_info:
  "(playwright_info path \<in> set (info (extension_checks path content)))
      = contains ''scrapy_playwright'' content"
  "(splash_info path \<in> set (info (extension_checks path content)))
      = contains ''scrapy_splash'' content"
  "(redis_info path \<in> set (info (extension_checks path content)))
      = contains ''scrapy_redis'' content"
  by (simp_all add: extension_checks_def playwright_info_def splash_info_def redis_info_def)

lemma unset_info_other:
  "playwright_info path \<noteq> robots_unset_info path"
  "splash_info path \<noteq> robots_unset_info path"
  "redis_info path \<noteq> robots_unset_info path"
  by (simp_all add: playwright_info_def splash_info_def redis_info_def robots_unset_info_def)

text \<open>
  Claim C7: for a source whose text does not parse, the analysis returns a result; its
  only warning reports the syntax error and its line; and each of the three substring
  checks adds its entry to \<open>info\<close> exactly when the raw text contains its marker.
\<close>

theorem syntax_error_degrades:
  "\<exists>r. analyze_settings lib path pn (SyntaxError lno msg txt content) = Inr r
      \<and> warnings r = [syntax_warning path lno msg txt]
      \<and> (playwright_info path \<in> set (info r)) = contains ''scrapy_playwright'' content
      \<and> (splash_info path \<in> set (info r)) = contains ''scrapy_splash'' content
      \<and> (redis_info path \<in> set (info r)) = contains ''scrapy_redis'' content"
proof -
  let ?r0 = "\<lparr>warnings = [syntax_warning path lno msg txt], recommendations = [], info = []\<rparr>"
  obtain r where r: "run_checks lib path pn content Map.empty ?r0 = Inr r"
    by (simp add: run_checks_unset)
  have w: "warnings r = [syntax_warning path lno msg txt]"
    using run_checks_warnings[OF r] by (simp add: robots_check_def deltas)
  have i: "info r = info (robots_check lib path content Map.empty)
      @ info (extension_checks path content)"
    using r by (auto simp: run_checks_unset info_append ua_check_unset_info
        cache_check_unset_info recommend_def)
  have n: "playwright_info path \<notin> set (info (robots_check lib path content Map.empty))"
    "splash_info path \<notin> set (info (robots_check lib path content Map.empty))"
    "redis_info path \<notin> set (info (robots_check lib path content Map.empty))"
    using robots_check_unset_info[of lib path content] unset_info_other[of path] by auto
  show ?thesis
    using r w n by (simp add: analyze_settings_def i extension_info)
qed

theorem syntax_error_degrades_witness:
  "map_sum id warnings (analyze_settings sample_ast ''settings.py'' ''shop'' broken_source)
     = Inr [syntax_warning ''settings.py'' (Some 1) ''invalid syntax''
              (Some (text_of [''DOWNLOAD_HANDLERS = scrapy_playwright.handler +'']))]
   \<and> map_sum id info (analyze_settings sample_ast ''settings.py'' ''shop'' broken_source)
     = Inr [robots_unset_info ''settings.py'', playwright_info ''settings.py'']"
  using syntax_error_degrades[of sample_ast "''settings.py''" "''shop''" "Some 1"
      "''invalid syntax''"
      "Some (text_of [''DOWNLOAD_HANDLERS = scrapy_playwright.handler +''])"
      "text_of [''DOWNLOAD_HANDLERS = scrapy_playwright.handler +'']"]
  by (simp add: advisor_eval broken_source_def)

subsection \<open>Values that are not literals\<close>

lemma non_literal_value:
  "literal_eval lib n = None \<Longrightarrow> get_node_value lib (Some n) = PNone"
  by (simp add: get_node_value_def)

lemma default_ua_not_elsewhere:
  "default_ua_rec path l \<notin> set (recommendations (cache_check lib path found))"
  "throttle_check lib path found = Inr t \<Longrightarrow> default_ua_rec path l \<notin> set (recommendations t)"
  by (auto simp: cache_check_def throttle_check_def deltas default_ua_rec_def
      cache_disabled_rec_def low_delay_rec_def high_concurrency_rec_def
      split: option.splits if_splits)

lemma cache_disabled_not_elsewhere:
  "cache_disabled_rec path l \<notin> set (recommendations (ua_check lib path pn content found))"
  "throttle_check lib path found = Inr t \<Longrightarrow> cache_disabled_rec path l \<notin> set (recommendations t)"
  by (auto simp: ua_check_def throttle_check_def deltas default_ua_rec_def missing_ua_rec_def
      cache_disabled_rec_def low_delay_rec_def high_concurrency_rec_def
      split: option.splits if_splits)

lemma autothrottle_info_not_elsewhere:
  "autothrottle_info path l \<noteq> syntax_passed_info path"
  "autothrottle_info path l \<notin> set (info (robots_check lib path content found))"
  "autothrottle_info path l \<notin> set (info (ua_check lib path pn content found))"
  "autothrottle_info path l \<notin> set (info (cache_check lib path found))"
  "autothrottle_info path l \<notin> set (info (extension_checks path content))"
  by (auto simp: robots_check_def ua_check_def cache_check_def extension_checks_def deltas entries
      split: option.splits if_splits)

lemma throttle_info_disabled:
  assumes "throttle_check lib path found = Inr t" "\<not> autothrottle_enabled lib found"
  shows "info t = []"
  using assms by (auto simp: throttle_check_def deltas split: option.splits if_splits)

lemma throttle_unknown_delay:
  assumes "throttle_check lib path found = Inr t" "\<not> autothrottle_enabled lib found"
    and "found ''DOWNLOAD_DELAY'' = Some (n, l)" "literal_eval lib n = None"
  shows "low_delay_rec path (Some l) PNone \<in> set (recommendations t)"
  using assms
  by (auto simp: throttle_check_def deltas delay_value_def setting_value_def setting_line_def
      get_node_value_def delay_is_low_def split: option.splits if_splits)

text \<open>
  Claim C8, as the code has it. A value that is not a literal is read as \<open>None\<close>, and in
  every result the analysis returns the entries that stand for a particular literal are
  absent: no warning that \<open>ROBOTSTXT_OBEY\<close> is \<open>False\<close>, no recommendation about a
  default \<open>USER_AGENT\<close>, no recommendation that the cache of an assigned
  \<open>HTTPCACHE_ENABLED\<close> is disabled, no entry that AutoThrottle is on. The entry of the
  other branch is still there (\<open>ROBOTSTXT_OBEY\<close> explicitly set, custom
  \<open>USER_AGENT\<close>, \<open>HTTPCACHE_ENABLED\<close> is True), and an unknown \<open>DOWNLOAD_DELAY\<close>
  without AutoThrottle gets the low-delay recommendation at its line.
\<close>

theorem non_literal_values:
  assumes "analyze_settings lib path pn (Parsed content nodes) = Inr r"
  shows "(settings_found nodes Map.empty ''ROBOTSTXT_OBEY'' = Some (n1, l1)
            \<and> literal_eval lib n1 = None
          \<longrightarrow> robots_warning path l1 \<notin> set (warnings r)
              \<and> robots_set_info path l1 \<in> set (info r))
       \<and> (settings_found nodes Map.empty ''USER_AGENT'' = Some (n2, l2)
            \<and> literal_eval lib n2 = None
          \<longrightarrow> default_ua_rec path l2 \<notin> set (recommendations r)
              \<and> custom_ua_info path l2 \<in> set (info r))
       \<and> (settings_found nodes Map.empty ''HTTPCACHE_ENABLED'' = Some (n3, l3)
            \<and> literal_eval lib n3 = None
          \<longrightarrow> cache_disabled_rec path (Some l3) \<notin> set (recommendations r)
              \<and> cache_enabled_info path l3 \<in> set (info r))
       \<and> (settings_found nodes Map.empty ''AUTOTHROTTLE_ENABLED'' = Some (n4, l4)
            \<and> literal_eval lib n4 = None
          \<longrightarrow> autothrottle_info path (Some l4) \<notin> set (info r))
       \<and> (settings_found nodes Map.empty ''DOWNLOAD_DELAY'' = Some (n5, l5)
            \<and> literal_eval lib n5 = None
            \<and> \<not> autothrottle_enabled lib (settings_found nodes Map.empty)
          \<longrightarrow> low_delay_rec path (Some l5) PNone \<in> set (recommendations r))"
proof -
  let ?found = "settings_found nodes Map.empty"
  let ?r0 = "\<lparr>warnings = [], recommendations = [], info = [syntax_passed_info path]\<rparr>"
  from assms have rc: "run_checks lib path pn content ?found ?r0 = Inr r"
    by (simp add: analyze_settings_def)
  from run_checks_parts[OF rc] obtain t where t: "throttle_check lib path ?found = Inr t"
    and recs: "recommendations r = recommendations (ua_check lib path pn content ?found)
          @ recommendations t @ recommendations (cache_check lib path ?found)"
    and inf: "info r = syntax_passed_info path
          # info (robots_check lib path content ?found)
          @ info (ua_check lib path pn content ?found)
          @ info t
          @ info (cache_check lib path ?found)
          @ info (extension_checks path content)"
    by (auto simp: robots_check_recommendations)
  have w: "warnings r = warnings (robots_check lib path content ?found)"
    using run_checks_warnings[OF rc] by simp
  have a: "robots_warning path l1 \<notin> set (warnings r) \<and> robots_set_info path l1 \<in> set (info r)"
    if "?found ''ROBOTSTXT_OBEY'' = Some (n1, l1)" "literal_eval lib n1 = None"
    using that by (simp add: w inf robots_check_def non_literal_value deltas)
  have b: "default_ua_rec path l2 \<notin> set (recommendations r)
      \<and> custom_ua_info path l2 \<in> set (info r)"
    if "?found ''USER_AGENT'' = Some (n2, l2)" "literal_eval lib n2 = None"
    using that default_ua_not_elsewhere(1)[of path l2 lib ?found]
      default_ua_not_elsewhere(2)[OF t, of l2]
    by (simp add: recs inf ua_check_def non_literal_value is_default_ua_def deltas)
  have c: "cache_disabled_rec path (Some l3) \<notin> set (recommendations r)
      \<and> cache_enabled_info path l3 \<in> set (info r)"
    if "?found ''HTTPCACHE_ENABLED'' = Some (n3, l3)" "literal_eval lib n3 = None"
    using that cache_disabled_not_elsewhere(1)[of path "Some l3" lib pn content ?found]
      cache_disabled_not_elsewhere(2)[OF t, of "Some l3"]
    by (simp add: recs inf cache_check_def non_literal_value deltas)
  have d: "autothrottle_info path (Some l4) \<notin> set (info r)"
    if "?found ''AUTOTHROTTLE_ENABLED'' = Some (n4, l4)" "literal_eval lib n4 = None"
  proof -
    from that have "\<not> autothrottle_enabled lib ?found"
      by (simp add: autothrottle_enabled_def non_literal_value)
    from throttle_info_disabled[OF t this] show ?thesis
      by (simp add: inf autothrottle_info_not_elsewhere)
  qed
  have e: "low_delay_rec path (Some l5) PNone \<in> set (recommendations r)"
    if "?found ''DOWNLOAD_DELAY'' = Some (n5, l5)" "literal_eval lib n5 = None"
      "\<not> autothrottle_enabled lib ?found"
    using throttle_unknown_delay[OF t that(3) that(1) that(2)] by (simp add: recs)
  from a b c d e show ?thesis by blast
qed

theorem non_literal_values_witness:
  "(case analyze_settings sample_ast ''settings.py'' ''shop'' computed_source of
      Inl e \<Rightarrow> False
    | Inr r \<Rightarrow>
        robots_warning ''settings.py'' 1 \<notin> set (warnings r)
        \<and> robots_set_info ''settings.py'' 1 \<in> set (info r)
        \<and> default_ua_rec ''settings.py'' 2 \<notin> set (recommendations r)
        \<and> custom_ua_info ''settings.py'' 2 \<in> set (info r)
        \<and> cache_disabled_rec ''settings.py'' (Some 4) \<notin> set (recommendations r)
        \<and> cache_enabled_info ''settings.py'' 4 \<in> set (info r)
        \<and> autothrottle_info ''settings.py'' (Some 5) \<notin> set (info r)
        \<and> low_delay_rec ''settings.py'' (Some 3) PNone \<in> set (recommendations r))"
proof -
  let ?nodes = "[assignment ''ROBOTSTXT_OBEY'' ''env.bool(1)'' 1,
        assignment ''USER_AGENT'' ''make_agent()'' 2,
        assignment ''DOWNLOAD_DELAY'' ''float(env.delay)'' 3,
        assignment ''HTTPCACHE_ENABLED'' ''env.bool(2)'' 4,
        assignment ''AUTOTHROTTLE_ENABLED'' ''env.bool(3)'' 5]"
  let ?content = "text_of [''ROBOTSTXT_OBEY = env.bool(1)'', ''USER_AGENT = make_agent()'',
                      ''DOWNLOAD_DELAY = float(env.delay)'', ''HTTPCACHE_ENABLED = env.bool(2)'',
                      ''AUTOTHROTTLE_ENABLED = env.bool(3)'']"
  obtain r where h: "analyze_settings sample_ast ''settings.py'' ''shop''
      (Parsed ?content ?nodes) = Inr r"
    by (simp add: advisor_eval)
  have f: "settings_found ?nodes Map.empty ''ROBOTSTXT_OBEY'' = Some (''env.bool(1)'', 1)"
    "settings_found ?nodes Map.empty ''USER_AGENT'' = Some (''make_agent()'', 2)"
    "settings_found ?nodes Map.empty ''HTTPCACHE_ENABLED'' = Some (''env.bool(2)'', 4)"
    "settings_found ?nodes Map.empty ''AUTOTHROTTLE_ENABLED'' = Some (''env.bool(3)'', 5)"
    "settings_found ?nodes Map.empty ''DOWNLOAD_DELAY'' = Some (''float(env.delay)'', 3)"
    by (simp_all add: assignment_def)
  have l: "literal_eval sample_ast ''env.bool(1)'' = None"
    "literal_eval sample_ast ''make_agent()'' = None"
    "literal_eval sample_ast ''env.bool(2)'' = None"
    "literal_eval sample_ast ''env.bool(3)'' = None"
    "literal_eval sample_ast ''float(env.delay)'' = None"
    by (simp_all add: sample_ast_def decimal_def is_digit_def)
  have a: "\<not> autothrottle_enabled sample_ast (settings_found ?nodes Map.empty)"
    by (simp add: advisor_eval)
  from non_literal_values[OF h, of "''env.bool(1)''" 1 "''make_agent()''" 2
      "''env.bool(2)''" 4 "''env.bool(3)''" 5 "''float(env.delay)''" 3] f l a
  have "robots_warning ''settings.py'' 1 \<notin> set (warnings r)
        \<and> robots_set_info ''settings.py'' 1 \<in> set (info r)
        \<and> default_ua_rec ''settings.py'' 2 \<notin> set (recommendations r)
        \<and> custom_ua_info ''settings.py'' 2 \<in> set (info r)
        \<and> cache_disabled_rec ''settings.py'' (Some 4) \<notin> set (recommendations r)
        \<and> cache_enabled_info ''settings.py'' 4 \<in> set (info r)
        \<and> autothrottle_info ''settings.py'' (Some 5) \<notin> set (info r)
        \<and> low_delay_rec ''settings.py'' (Some 3) PNone \<in> set (recommendations r)"
    by blast
  moreover have "analyze_settings sample_ast ''settings.py'' ''shop'' computed_source = Inr r"
    unfolding computed_source_def by (rule h)
  ultimately show ?thesis by simp
qed

text \<open>
  Claim C8 as stated fails for \<open>DOWNLOAD_DELAY = float(env.delay)\<close> on line 3: the value
  is not a literal, and the advisor still emits a recommendation for that setting, at
  that line, with the delay described as the default; for the unknown
  \<open>HTTPCACHE_ENABLED\<close> of line 4 it emits the entry saying that it is True.
\<close>

theorem non_literal_counterexample:
  "literal_eval sample_ast ''float(env.delay)'' = None
   \<and> map_sum id recommendations
        (analyze_settings sample_ast ''settings.py'' ''shop'' computed_source)
     = Inr [low_delay_rec ''settings.py'' (Some 3) PNone,
            high_concurrency_rec ''settings.py'' None (PInt 16) (PInt 16)]
   \<and> map_sum id info (analyze_settings sample_ast ''settings.py'' ''shop'' computed_source)
     = Inr [syntax_passed_info ''settings.py'', robots_set_info ''settings.py'' 1,
            custom_ua_info ''settings.py'' 2, cache_enabled_info ''settings.py'' 4]"
  by (simp add: advisor_eval computed_source_def)

end
